theory Spec2Isabelle
  imports Complex_Main "HOL-Library.Log_Nat" "HOL-Library.AList"
begin

section \<open>Python values\<close>

text \<open>
  The bridge server (\<^verbatim>\<open>src/python-middleware/server.py\<close>) works on the values that
  \<^verbatim>\<open>json.loads\<close> produces. A Python float is modelled by its exact value: a finite
  double is a rational number, beside the two infinities and NaN (\<open>-0.0\<close> and \<open>0.0\<close>,
  which compare equal and are both falsy, are one value). Python's integers are
  unbounded. Strings are ASCII byte strings.
\<close>

datatype pyfloat = Finite rat | PosInf | NegInf | NaN

datatype json =
    JNull
  | JBool bool
  | JInt int
  | JFloat pyfloat
  | JStr string
  | JArr "json list"
  | JObj "(string \<times> json) list"

text \<open>The exceptions the handler can meet. \<open>StorageError\<close> stands for any exception
  raised by a call of the Supabase client.\<close>

datatype exn =
    ValueError
  | TypeError
  | OverflowError
  | AttributeError
  | StorageError

text \<open>
  Four builtins whose text formats are not spelled out here are parameters of the
  model: \<^verbatim>\<open>float(s)\<close> on a string (\<open>None\<close> is its ValueError), \<^verbatim>\<open>str(x)\<close> of a float,
  the format \<^verbatim>\<open>{x:.1f}\<close> of a float, and \<^verbatim>\<open>repr(s)\<close> of a string (used when a list or
  a dict is printed). Every theorem below holds for all of them.
\<close>

record pylib =
  float_of_str :: "string \<Rightarrow> pyfloat option"
  str_of_float :: "pyfloat \<Rightarrow> string"
  format_1f :: "pyfloat \<Rightarrow> string"
  repr_of_str :: "string \<Rightarrow> string"

subsection \<open>Comparison, truth value and conversion to float\<close>

fun float_less :: "pyfloat \<Rightarrow> pyfloat \<Rightarrow> bool" where
  "float_less NaN _ = False"
| "float_less _ NaN = False"
| "float_less (Finite a) (Finite b) = (a < b)"
| "float_less (Finite a) PosInf = True"
| "float_less (Finite a) NegInf = False"
| "float_less PosInf _ = False"
| "float_less NegInf NegInf = False"
| "float_less NegInf _ = True"

text \<open>\<^verbatim>\<open>bool(x)\<close>, also the test of \<^verbatim>\<open>if x:\<close>.\<close>

fun truthy :: "json \<Rightarrow> bool" where
  "truthy JNull = False"
| "truthy (JBool b) = b"
| "truthy (JInt n) = (n \<noteq> 0)"
| "truthy (JFloat f) = (f \<noteq> Finite 0)"
| "truthy (JStr s) = (s \<noteq> [])"
| "truthy (JArr xs) = (xs \<noteq> [])"
| "truthy (JObj kvs) = (kvs \<noteq> [])"

text \<open>\<^verbatim>\<open>x == 1\<close>: numbers compare by value, and \<^verbatim>\<open>True == 1\<close>.\<close>

fun eq_one :: "json \<Rightarrow> bool" where
  "eq_one (JBool b) = b"
| "eq_one (JInt n) = (n = 1)"
| "eq_one (JFloat f) = (f = Finite 1)"
| "eq_one _ = False"

text \<open>
  \<^verbatim>\<open>float(n)\<close> of an integer rounds to the nearest double (53 significant bits, ties to
  even) and raises OverflowError when the result is out of the doubles' range.
\<close>

definition round_double :: "int \<Rightarrow> int" where
  "round_double n =
     (let a = \<bar>n\<bar>; e = bitlen a - 53 in
      if e \<le> 0 then n
      else
        let q = a div 2 ^ nat e; r = a mod 2 ^ nat e; h = 2 ^ nat (e - 1);
            q' = (if h < r \<or> (r = h \<and> odd q) then q + 1 else q)
        in sgn n * q' * 2 ^ nat e)"

definition float_of_int :: "int \<Rightarrow> exn + pyfloat" where
  "float_of_int n =
     (let m = round_double n in
      if 2 ^ 1024 \<le> \<bar>m\<bar> then Inl OverflowError else Inr (Finite (of_int m)))"

fun py_float :: "pylib \<Rightarrow> json \<Rightarrow> exn + pyfloat" where
  "py_float L JNull = Inl TypeError"
| "py_float L (JBool b) = Inr (Finite (if b then 1 else 0))"
| "py_float L (JInt n) = float_of_int n"
| "py_float L (JFloat f) = Inr f"
| "py_float L (JStr s) =
     (case float_of_str L s of None \<Rightarrow> Inl ValueError | Some f \<Rightarrow> Inr f)"
| "py_float L (JArr xs) = Inl TypeError"
| "py_float L (JObj kvs) = Inl TypeError"

text \<open>\<^verbatim>\<open>x < c\<close> for a float \<open>c\<close>: integers compare exactly, other types raise.\<close>

fun less_float :: "json \<Rightarrow> pyfloat \<Rightarrow> exn + bool" where
  "less_float (JBool b) c = Inr (float_less (Finite (if b then 1 else 0)) c)"
| "less_float (JInt n) c = Inr (float_less (Finite (of_int n)) c)"
| "less_float (JFloat f) c = Inr (float_less f c)"
| "less_float _ c = Inl TypeError"

text \<open>The format \<^verbatim>\<open>{x:.1f}\<close>: an integer is converted to a float first.\<close>

fun format_number :: "pylib \<Rightarrow> json \<Rightarrow> exn + string" where
  "format_number L (JBool b) = Inr (format_1f L (Finite (if b then 1 else 0)))"
| "format_number L (JInt n) =
     (case float_of_int n of Inl e \<Rightarrow> Inl e | Inr f \<Rightarrow> Inr (format_1f L f))"
| "format_number L (JFloat f) = Inr (format_1f L f)"
| "format_number L (JStr s) = Inl ValueError"
| "format_number L _ = Inl TypeError"

subsection \<open>Strings\<close>

definition upper_char :: "char \<Rightarrow> char" where
  "upper_char c =
     (let n = (of_char c :: nat) in if 97 \<le> n \<and> n \<le> 122 then char_of (n - 32) else c)"

definition upper :: "string \<Rightarrow> string" where
  "upper s = map upper_char s"

text \<open>\<^verbatim>\<open>needle in hay\<close> on strings.\<close>

fun contains :: "string \<Rightarrow> string \<Rightarrow> bool" where
  "contains needle [] = (needle = [])"
| "contains needle (c # cs) =
     (take (length needle) (c # cs) = needle \<or> contains needle cs)"

fun show_nat :: "nat \<Rightarrow> string" where
  "show_nat n =
     (if n < 10 then [char_of (48 + n)]
      else show_nat (n div 10) @ [char_of (48 + n mod 10)])"

definition show_int :: "int \<Rightarrow> string" where
  "show_int i = (if i < 0 then CHR ''-'' # show_nat (nat (- i)) else show_nat (nat i))"

fun join :: "string \<Rightarrow> string list \<Rightarrow> string" where
  "join sep [] = []"
| "join sep [x] = x"
| "join sep (x # y # ys) = x @ sep @ join sep (y # ys)"

text \<open>\<^verbatim>\<open>repr(x)\<close> and \<^verbatim>\<open>str(x)\<close>: they differ on strings only.\<close>

fun py_repr :: "pylib \<Rightarrow> json \<Rightarrow> string" where
  "py_repr L JNull = ''None''"
| "py_repr L (JBool b) = (if b then ''True'' else ''False'')"
| "py_repr L (JInt n) = show_int n"
| "py_repr L (JFloat f) = str_of_float L f"
| "py_repr L (JStr s) = repr_of_str L s"
| "py_repr L (JArr xs) = ''['' @ join '', '' (map (py_repr L) xs) @ '']''"
| "py_repr L (JObj kvs) =
     ''{'' @ join '', '' (map (\<lambda>kv. repr_of_str L (fst kv) @ '': '' @ py_repr L (snd kv)) kvs)
       @ ''}''"

definition py_str :: "pylib \<Rightarrow> json \<Rightarrow> string" where
  "py_str L v = (case v of JStr s \<Rightarrow> s | _ \<Rightarrow> py_repr L v)"

subsection \<open>Dictionaries\<close>

text \<open>A dict is an association list in insertion order; \<^verbatim>\<open>d[k] = v\<close> is
  \<^const>\<open>AList.update\<close>. \<^verbatim>\<open>d.get(k)\<close> gives \<open>None\<close> for a missing key,
  \<^verbatim>\<open>d.get(k, x)\<close> gives \<open>x\<close>.\<close>

type_synonym pydict = "(string \<times> json) list"

definition dict_get :: "pydict \<Rightarrow> string \<Rightarrow> json" where
  "dict_get d k = (case map_of d k of None \<Rightarrow> JNull | Some v \<Rightarrow> v)"

definition dict_get_or :: "pydict \<Rightarrow> string \<Rightarrow> json \<Rightarrow> json" where
  "dict_get_or d k dflt = (case map_of d k of None \<Rightarrow> dflt | Some v \<Rightarrow> v)"

section \<open>Configuration\<close>

text \<open>The module constants \<^verbatim>\<open>FACTORY_MAPPING\<close>, \<^verbatim>\<open>DEFAULT_FACTORY\<close> and
  \<^verbatim>\<open>ALERT_THRESHOLDS\<close> of \<^verbatim>\<open>server.py\<close>, and the dict \<^verbatim>\<open>factory_lookup\<close> that two
  methods build. A lookup with a list or a dict as key raises TypeError (the key is
  unhashable); any other key that is not in the dict is simply absent.\<close>

definition DEFAULT_FACTORY :: string where
  "DEFAULT_FACTORY = ''factory_1''"

definition FACTORY_MAPPING :: "(string \<times> string) list" where
  "FACTORY_MAPPING = [(''factory_1'', ''factory_1_data''), (''factory_2'', ''factory_2_data'')]"

definition temperature_high :: pyfloat where
  "temperature_high = Finite 30"

definition temperature_low :: pyfloat where
  "temperature_low = Finite 15"

definition battery_low :: pyfloat where
  "battery_low = Finite 15"

fun hashable :: "json \<Rightarrow> bool" where
  "hashable (JArr xs) = False"
| "hashable (JObj kvs) = False"
| "hashable _ = True"

definition str_key_get :: "(string \<times> 'a) list \<Rightarrow> json \<Rightarrow> exn + 'a option" where
  "str_key_get d k =
     (if \<not> hashable k then Inl TypeError
      else case k of JStr s \<Rightarrow> Inr (map_of d s) | _ \<Rightarrow> Inr None)"

definition factory_mapping_get :: "json \<Rightarrow> exn + string" where
  "factory_mapping_get k =
     (case str_key_get FACTORY_MAPPING k of
        Inl e \<Rightarrow> Inl e
      | Inr None \<Rightarrow> Inr (the (map_of FACTORY_MAPPING DEFAULT_FACTORY))
      | Inr (Some t) \<Rightarrow> Inr t)"

definition factory_lookup :: "json \<Rightarrow> exn + nat option" where
  "factory_lookup k = str_key_get [(''factory_1'', 1), (''factory_2'', 2)] k"

section \<open>The store and the console\<close>

text \<open>
  A row of the table \<^verbatim>\<open>system_alerts\<close>. Its \<^verbatim>\<open>id\<close> is its position in the table: the
  database numbers the rows serially and the server never deletes one.
\<close>

record alert =
  factory_id :: nat
  alert_type :: string
  severity :: string
  message :: string
  system_name :: json
  acknowledged :: bool
  created_at :: nat
  acknowledged_at :: "nat option"
  acknowledged_by :: "string option"

text \<open>What the server prints.\<close>

datatype log_line =
    DataSaved json string
  | SaveFailed json string
  | NoValidData json
  | JsonParseError
  | CriticalError exn
  | DatabaseError exn
  | AlertError exn
  | AlertCreationError exn
  | AlertUpdated string
  | AlertCreated string
  | SecurityAlert json

text \<open>
  The world a request runs in: the telemetry tables (each row with the name of its
  table), the table \<^verbatim>\<open>factories\<close> (id and \<^verbatim>\<open>last_data_received\<close>), the alerts, the
  console, the clock that \<^verbatim>\<open>datetime.now\<close> reads, and the faults of the storage client:
  each call of the client takes the head of \<open>faults\<close> and raises when it is \<open>True\<close>; with
  no fault left every call succeeds. A call that raises changes no table.
\<close>

record world =
  telemetry_rows :: "(string \<times> pydict) list"
  factories :: "(nat \<times> nat option) list"
  alerts :: "alert list"
  console :: "log_line list"
  faults :: "bool list"
  clock :: nat

definition db_call :: "world \<Rightarrow> bool \<times> world" where
  "db_call w = (case faults w of [] \<Rightarrow> (False, w) | f # fs \<Rightarrow> (f, w\<lparr>faults := fs\<rparr>))"

definition py_print :: "log_line \<Rightarrow> world \<Rightarrow> world" where
  "py_print l w = w\<lparr>console := console w @ [l]\<rparr>"

text \<open>
  Modelled from the spec: the schema of \<^verbatim>\<open>system_alerts\<close> is not in the repository. An
  inserted row that names no \<^verbatim>\<open>acknowledged\<close> column is an open alert (``acknowledged =
  false''), created at the time of the insert and without acknowledgment data.
\<close>

definition new_alert :: "nat \<Rightarrow> string \<Rightarrow> string \<Rightarrow> string \<Rightarrow> json \<Rightarrow> nat \<Rightarrow> alert" where
  "new_alert pk atype sev msg sysname now =
     \<lparr>factory_id = pk, alert_type = atype, severity = sev, message = msg,
      system_name = sysname, acknowledged = False, created_at = now,
      acknowledged_at = None, acknowledged_by = None\<rparr>"

section \<open>The alert state store adapter\<close>

text \<open>The filter of both queries: the unacknowledged alerts of a factory, a subsystem
  and an alert type.\<close>

definition is_open_for :: "nat \<Rightarrow> json \<Rightarrow> string \<Rightarrow> alert \<Rightarrow> bool" where
  "is_open_for pk sysname atype a =
     (factory_id a = pk \<and> system_name a = sysname \<and> alert_type a = atype \<and> \<not> acknowledged a)"

definition select_open :: "nat \<Rightarrow> json \<Rightarrow> string \<Rightarrow> alert list \<Rightarrow> (nat \<times> alert) list" where
  "select_open pk sysname atype rows =
     filter (\<lambda>ir. is_open_for pk sysname atype (snd ir)) (enumerate 0 rows)"

text \<open>\<^verbatim>\<open>_create_unique_alert\<close>: every exception is caught and printed.\<close>

definition create_unique_alert ::
  "nat \<Rightarrow> string \<Rightarrow> string \<Rightarrow> string \<Rightarrow> json \<Rightarrow> world \<Rightarrow> world" where
  "create_unique_alert pk atype sev msg sysname w =
     (let (failed, w1) = db_call w in
      if failed then py_print (AlertCreationError StorageError) w1
      else
        case select_open pk sysname atype (alerts w1) of
          (alert_id, row) # _ \<Rightarrow>
            if message row \<noteq> msg then
              (let (failed2, w2) = db_call w1 in
               if failed2 then py_print (AlertCreationError StorageError) w2
               else py_print (AlertUpdated atype)
                 (w2\<lparr>alerts := (alerts w2)
                    [alert_id := (alerts w2 ! alert_id)\<lparr>message := msg, created_at := clock w2\<rparr>]\<rparr>))
            else w1
        | [] \<Rightarrow>
            (let (failed2, w2) = db_call w1 in
             if failed2 then py_print (AlertCreationError StorageError) w2
             else py_print (AlertCreated atype)
               (w2\<lparr>alerts := alerts w2 @ [new_alert pk atype sev msg sysname (clock w2)]\<rparr>)))"

text \<open>\<^verbatim>\<open>_auto_acknowledge_alert\<close>: one update of every matching row; an exception is
  swallowed.\<close>

definition auto_acknowledge_alert :: "nat \<Rightarrow> json \<Rightarrow> string \<Rightarrow> world \<Rightarrow> world" where
  "auto_acknowledge_alert pk sysname atype w =
     (let (failed, w1) = db_call w in
      if failed then w1
      else w1\<lparr>alerts :=
        map (\<lambda>a. if is_open_for pk sysname atype a
                 then a\<lparr>acknowledged := True, acknowledged_at := Some (clock w1),
                        acknowledged_by := Some ''AUTO_RESOLVED''\<rparr>
                 else a)
          (alerts w1)\<rparr>)"

section \<open>The alert rule engine\<close>

text \<open>
  The messages of the alerts. The source starts each with an emoji and writes a degree
  sign before \<open>C\<close>; the model leaves these non-ASCII characters out.
\<close>

definition fire_message :: "pylib \<Rightarrow> json \<Rightarrow> string" where
  "fire_message L sensor_val =
     ''FIRE DETECTED! Sensor: '' @ py_str L sensor_val @ '' | Sprinklers & Siren ACTIVATED''"

definition high_temperature_message :: "pylib \<Rightarrow> pyfloat \<Rightarrow> json \<Rightarrow> string" where
  "high_temperature_message L temp ac_status =
     ''High Temperature: '' @ format_1f L temp @ ''C (Threshold: ''
       @ str_of_float L temperature_high @ ''C) | AC: '' @ py_str L ac_status"

definition low_temperature_message :: "pylib \<Rightarrow> pyfloat \<Rightarrow> json \<Rightarrow> string" where
  "low_temperature_message L temp furnace_status =
     ''Low Temperature: '' @ format_1f L temp @ ''C (Threshold: ''
       @ str_of_float L temperature_low @ ''C) | Furnace: '' @ py_str L furnace_status"

definition battery_message :: "pylib \<Rightarrow> string \<Rightarrow> json \<Rightarrow> string" where
  "battery_message L level led =
     ''Critical Battery: '' @ level @ ''% (LED: '' @ py_str L led @ '') | Charge Immediately!''"

definition access_message :: "pylib \<Rightarrow> json \<Rightarrow> string" where
  "access_message L card_id =
     ''Unauthorized Access Attempt | Card ID: '' @ py_str L card_id @ '' | Door: LOCKED''"

text \<open>
  \<^verbatim>\<open>_check_and_create_alerts\<close> runs four blocks in turn inside one \<^verbatim>\<open>try\<close>. A block
  gives the exception that left it, if any, and the world it reached; the two adapter
  methods catch their own exceptions, so a block is left only by a conversion, a
  comparison or a format that raises, or by the insert of the access block.
\<close>

definition fire_rule :: "pylib \<Rightarrow> nat \<Rightarrow> pydict \<Rightarrow> json \<Rightarrow> world \<Rightarrow> world" where
  "fire_rule L pk telemetry sysname w =
     (let fire_status = upper (py_str L (dict_get_or telemetry ''fire_status'' (JStr []))) in
      if contains ''FIRE'' fire_status \<and> fire_status \<noteq> ''SAFE'' then
        create_unique_alert pk ''FIRE_DETECTED'' ''CRITICAL''
          (fire_message L (dict_get_or telemetry ''fire_sensor_val'' (JStr ''N/A''))) sysname w
      else auto_acknowledge_alert pk sysname ''FIRE_DETECTED'' w)"

text \<open>Lines 266 to 272: \<open>None\<close> stays \<open>None\<close>, a ValueError or a TypeError of
  \<^verbatim>\<open>float\<close> gives \<open>None\<close>, any other exception leaves the block.\<close>

definition read_temperature :: "pylib \<Rightarrow> json \<Rightarrow> exn + pyfloat option" where
  "read_temperature L temp =
     (if temp \<noteq> JNull then
        (case py_float L temp of
           Inr f \<Rightarrow> Inr (Some f)
         | Inl e \<Rightarrow> if e = ValueError \<or> e = TypeError then Inr None else Inl e)
      else Inr None)"

definition temperature_rule ::
  "pylib \<Rightarrow> nat \<Rightarrow> pydict \<Rightarrow> json \<Rightarrow> world \<Rightarrow> exn option \<times> world" where
  "temperature_rule L pk telemetry sysname w =
     (case read_temperature L (dict_get telemetry ''temperature'') of
        Inl e \<Rightarrow> (Some e, w)
      | Inr None \<Rightarrow> (None, w)
      | Inr (Some temp) \<Rightarrow>
          if float_less temperature_high temp then
            (None, create_unique_alert pk ''HIGH_TEMPERATURE'' ''WARNING''
               (high_temperature_message L temp (dict_get_or telemetry ''ac_state'' (JStr ''N/A'')))
               sysname w)
          else if float_less temp temperature_low then
            (None, create_unique_alert pk ''LOW_TEMPERATURE'' ''WARNING''
               (low_temperature_message L temp
                  (dict_get_or telemetry ''furnace_state'' (JStr ''N/A'')))
               sysname w)
          else
            (None, auto_acknowledge_alert pk sysname ''LOW_TEMPERATURE''
               (auto_acknowledge_alert pk sysname ''HIGH_TEMPERATURE'' w)))"

definition battery_rule ::
  "pylib \<Rightarrow> nat \<Rightarrow> pydict \<Rightarrow> json \<Rightarrow> world \<Rightarrow> exn option \<times> world" where
  "battery_rule L pk telemetry sysname w =
     (let battery = dict_get telemetry ''battery_level'' in
      if truthy battery then
        (case less_float battery battery_low of
           Inl e \<Rightarrow> (Some e, w)
         | Inr True \<Rightarrow>
             (case format_number L battery of
                Inl e \<Rightarrow> (Some e, w)
              | Inr level \<Rightarrow>
                  (None, create_unique_alert pk ''LOW_BATTERY'' ''WARNING''
                     (battery_message L level
                        (dict_get_or telemetry ''led_brightness'' (JStr ''N/A'')))
                     sysname w))
         | Inr False \<Rightarrow> (None, auto_acknowledge_alert pk sysname ''LOW_BATTERY'' w))
      else (None, w))"

definition access_rule ::
  "pylib \<Rightarrow> nat \<Rightarrow> pydict \<Rightarrow> json \<Rightarrow> world \<Rightarrow> exn option \<times> world" where
  "access_rule L pk telemetry sysname w =
     (if dict_get telemetry ''access_log'' = JStr ''DENIED'' then
        (let card_id = dict_get_or telemetry ''rfid_last_card'' (JStr ''Unknown'');
             (failed, w1) = db_call w in
         if failed then (Some StorageError, w1)
         else (None, py_print (SecurityAlert card_id)
           (w1\<lparr>alerts := alerts w1 @
              [new_alert pk ''UNAUTHORIZED_ACCESS'' ''WARNING'' (access_message L card_id)
                 sysname (clock w1)]\<rparr>)))
      else (None, w))"

definition check_and_create_alerts :: "pylib \<Rightarrow> pydict \<Rightarrow> json \<Rightarrow> json \<Rightarrow> world \<Rightarrow> world" where
  "check_and_create_alerts L telemetry factory sysname w =
     (case factory_lookup factory of
        Inl e \<Rightarrow> py_print (AlertError e) w
      | Inr None \<Rightarrow> w
      | Inr (Some pk) \<Rightarrow>
          (if pk = 0 then w
           else
             let w1 = fire_rule L pk telemetry sysname w in
             case temperature_rule L pk telemetry sysname w1 of
               (Some e, w2) \<Rightarrow> py_print (AlertError e) w2
             | (None, w2) \<Rightarrow>
                 (case battery_rule L pk telemetry sysname w2 of
                    (Some e, w3) \<Rightarrow> py_print (AlertError e) w3
                  | (None, w3) \<Rightarrow>
                      (case access_rule L pk telemetry sysname w3 of
                         (Some e, w4) \<Rightarrow> py_print (AlertError e) w4
                       | (None, w4) \<Rightarrow> w4))))"

section \<open>The telemetry mapper\<close>

text \<open>
  \<^verbatim>\<open>_map_telemetry_data\<close>. The dict starts empty and each branch sets distinct keys, so
  the result is the list of its assignments in their order. Only the HVAC branch can be
  left by an exception: \<^verbatim>\<open>float\<close> is guarded against ValueError and TypeError.
\<close>

definition map_telemetry_data :: "pylib \<Rightarrow> pydict \<Rightarrow> json \<Rightarrow> exn + pydict" where
  "map_telemetry_data L pt_data sysname =
     (if sysname = JStr ''Fire_Control'' then
        Inr [(''fire_sensor_val'', dict_get pt_data ''sensor_value''),
             (''fire_status'', dict_get pt_data ''status''),
             (''siren_state'', JStr (if eq_one (dict_get pt_data ''siren'') then ''ON'' else ''OFF'')),
             (''sprinkler_state'',
                JStr (if eq_one (dict_get pt_data ''sprinkler'') then ''ON'' else ''OFF''))]
      else if sysname = JStr ''Conveyor_Belt'' then
        Inr [(''order_count'', dict_get pt_data ''order_count''),
             (''conveyor_speed'', dict_get pt_data ''sensor_value''),
             (''conveyor_status'', dict_get pt_data ''status'')]
      else if sysname = JStr ''Weight_System'' then
        Inr [(''weight_grams'', dict_get pt_data ''weight_val''),
             (''weight_status'', dict_get pt_data ''status''),
             (''servo_angle'', dict_get pt_data ''servo_pos'')]
      else if sysname = JStr ''Garage_Door'' then
        (let motion_status = dict_get pt_data ''motion_status'' in
         Inr [(''motion_detected'',
                 (case motion_status of
                    JStr s \<Rightarrow> JBool (s = ''DETECTED'')
                  | _ \<Rightarrow> JBool (truthy motion_status))),
              (''garage_door'', dict_get pt_data ''door_state'')])
      else if sysname = JStr ''Battery_System'' then
        Inr [(''battery_level'', dict_get pt_data ''battery_level''),
             (''led_brightness'', dict_get pt_data ''led_intensity'')]
      else if sysname = JStr ''HVAC_System'' then
        (let temp_value = dict_get pt_data ''temperature'';
             states = [(''ac_state'', dict_get pt_data ''ac_status''),
                       (''ac2_state'', dict_get pt_data ''ac2_status''),
                       (''furnace_state'', dict_get pt_data ''furnace_status'')]
         in if temp_value \<noteq> JNull then
              (case py_float L temp_value of
                 Inr f \<Rightarrow> Inr ((''temperature'', JFloat f) # states)
               | Inl e \<Rightarrow>
                   if e = ValueError \<or> e = TypeError then Inr ((''temperature'', JNull) # states)
                   else Inl e)
            else Inr states)
      else if sysname = JStr ''Safe_Room'' then
        Inr [(''rfid_last_card'', dict_get pt_data ''last_card''),
             (''access_log'', dict_get pt_data ''access''),
             (''safe_door'', dict_get pt_data ''door''),
             (''webcam_status'', dict_get pt_data ''webcam'')]
      else Inr [])"

section \<open>The ingestion coordinator\<close>

text \<open>
  \<^verbatim>\<open>_insert_to_supabase\<close>: the insert of the record, then the update of the factory's
  \<^verbatim>\<open>last_data_received\<close> when the factory key is a known one. Any exception is printed
  and gives \<open>False\<close>; a record inserted before the exception stays inserted.
\<close>

definition insert_to_supabase :: "string \<Rightarrow> pydict \<Rightarrow> json \<Rightarrow> world \<Rightarrow> bool \<times> world" where
  "insert_to_supabase table_name data factory w =
     (let (failed, w1) = db_call w in
      if failed then (False, py_print (DatabaseError StorageError) w1)
      else
        let w2 = w1\<lparr>telemetry_rows := telemetry_rows w1 @ [(table_name, data)]\<rparr> in
        case factory_lookup factory of
          Inl e \<Rightarrow> (False, py_print (DatabaseError e) w2)
        | Inr None \<Rightarrow> (True, w2)
        | Inr (Some pk) \<Rightarrow>
            (if pk = 0 then (True, w2)
             else
               let (failed2, w3) = db_call w2 in
               if failed2 then (False, py_print (DatabaseError StorageError) w3)
               else (True, w3\<lparr>factories :=
                 map (\<lambda>row. if fst row = pk then (fst row, Some (clock w3)) else row)
                   (factories w3)\<rparr>)))"

text \<open>
  What reaches \<^verbatim>\<open>do_POST\<close>: a body that \<^verbatim>\<open>json.loads\<close> parsed, one it rejected
  (JSONDecodeError), or one that could not be read or decoded at all (any other
  exception of steps 1 and 2).
\<close>

datatype request = Unreadable exn | InvalidJson | Parsed json

datatype response = Response nat "(string \<times> string) list"

definition success_response :: response where
  "success_response = Response 200 [(''status'', ''success'')]"

definition send_error_response :: "nat \<Rightarrow> string \<Rightarrow> response" where
  "send_error_response code msg = Response code [(''status'', ''error''), (''message'', msg)]"

text \<open>The format \<^verbatim>\<open>{system_name:<20}\<close> of the console lines raises TypeError for
  \<open>None\<close>, a list and a dict.\<close>

fun formattable :: "json \<Rightarrow> bool" where
  "formattable JNull = False"
| "formattable (JArr xs) = False"
| "formattable (JObj kvs) = False"
| "formattable _ = True"

text \<open>Instants are clock ticks; \<^verbatim>\<open>isoformat\<close> is modelled by the tick's numeral.\<close>

definition isoformat :: "nat \<Rightarrow> string" where
  "isoformat t = show_nat t"

definition internal_error :: "exn \<Rightarrow> world \<Rightarrow> response \<times> world" where
  "internal_error e w =
     (send_error_response 500 ''Internal Server Error'', py_print (CriticalError e) w)"

definition do_POST :: "pylib \<Rightarrow> request \<Rightarrow> world \<Rightarrow> response \<times> world" where
  "do_POST L req w =
     (case req of
        Unreadable e \<Rightarrow> internal_error e w
      | InvalidJson \<Rightarrow> (send_error_response 400 ''Invalid JSON'', py_print JsonParseError w)
      | Parsed (JObj pt_data) \<Rightarrow>
          (let sysname = dict_get_or pt_data ''system'' (JStr ''Unknown'');
               factory = dict_get_or pt_data ''factory'' (JStr DEFAULT_FACTORY) in
           case factory_mapping_get factory of
             Inl e \<Rightarrow> internal_error e w
           | Inr table_name \<Rightarrow>
               (case map_telemetry_data L pt_data sysname of
                  Inl e \<Rightarrow> internal_error e w
                | Inr telemetry \<Rightarrow>
                    if telemetry \<noteq> [] then
                      (let stamped = AList.update ''timestamp'' (JStr (isoformat (clock w)))
                             (AList.update ''system_name'' sysname telemetry);
                           (success, w1) = insert_to_supabase table_name stamped factory w in
                       if \<not> formattable sysname then internal_error TypeError w1
                       else if success then
                         (success_response,
                          check_and_create_alerts L stamped factory sysname
                            (py_print (DataSaved sysname table_name) w1))
                       else (success_response, py_print (SaveFailed sysname table_name) w1))
                    else if \<not> formattable sysname then internal_error TypeError w
                    else (success_response, py_print (NoValidData sysname) w)))
      | Parsed _ \<Rightarrow> internal_error AttributeError w)"

section \<open>Vocabulary of the properties\<close>

text \<open>The open alerts of a (factory, subsystem, alert type) tuple, and the rows of one
  alert type, in table order.\<close>

definition open_alerts :: "nat \<Rightarrow> json \<Rightarrow> string \<Rightarrow> world \<Rightarrow> alert list" where
  "open_alerts pk sysname atype w = filter (is_open_for pk sysname atype) (alerts w)"

definition alerts_of_type :: "string \<Rightarrow> alert list \<Rightarrow> alert list" where
  "alerts_of_type atype rows = filter (\<lambda>a. alert_type a = atype) rows"

text \<open>The two writes to an existing row: the refresh of \<^verbatim>\<open>_create_unique_alert\<close> and
  the acknowledgment of \<^verbatim>\<open>_auto_acknowledge_alert\<close>.\<close>

definition refreshed :: "string \<Rightarrow> nat \<Rightarrow> alert \<Rightarrow> alert" where
  "refreshed msg now a = a\<lparr>message := msg, created_at := now\<rparr>"

definition resolved :: "nat \<Rightarrow> alert \<Rightarrow> alert" where
  "resolved now a =
     a\<lparr>acknowledged := True, acknowledged_at := Some now,
       acknowledged_by := Some ''AUTO_RESOLVED''\<rparr>"

subsection \<open>The reconciliation contract in the spec's words\<close>

text \<open>
  The spec (section 4.3) names the two adapter methods \<open>reconcile\<close> with an action
  \<open>Assert(severity, message)\<close> or \<open>Clear\<close>. A run of reconciliations is a list of
  such calls, each at its own clock reading.
\<close>

datatype action = Assert string string | Clear

definition reconcile :: "nat \<Rightarrow> json \<Rightarrow> string \<Rightarrow> action \<Rightarrow> world \<Rightarrow> world" where
  "reconcile pk sysname atype act w =
     (case act of
        Assert sev msg \<Rightarrow> create_unique_alert pk atype sev msg sysname w
      | Clear \<Rightarrow> auto_acknowledge_alert pk sysname atype w)"

fun reconcile_all :: "(nat \<times> nat \<times> json \<times> string \<times> action) list \<Rightarrow> world \<Rightarrow> world" where
  "reconcile_all [] w = w"
| "reconcile_all ((now, pk, sysname, atype, act) # ops) w =
     reconcile_all ops (reconcile pk sysname atype act (w\<lparr>clock := now\<rparr>))"

text \<open>
  What the spec says an Assert and a Clear do to the table, written on the list of rows:
  ``look up the unacknowledged alert for the tuple; if none exists, insert a new alert
  record; if one exists and its message differs, update message and creation timestamp in
  place; if the message is unchanged, no write'', and ``if found, mark acknowledged''.
  The rule engine's effect on the rows of each alert type is compared with these.
\<close>

fun refresh_first :: "(alert \<Rightarrow> bool) \<Rightarrow> (alert \<Rightarrow> alert) \<Rightarrow> alert list \<Rightarrow> alert list" where
  "refresh_first P f [] = []"
| "refresh_first P f (a # rows) = (if P a then f a # rows else a # refresh_first P f rows)"

definition assert_rows ::
  "nat \<Rightarrow> json \<Rightarrow> string \<Rightarrow> string \<Rightarrow> string \<Rightarrow> nat \<Rightarrow> alert list \<Rightarrow> alert list" where
  "assert_rows pk sysname atype sev msg now rows =
     (case find (is_open_for pk sysname atype) rows of
        None \<Rightarrow> rows @ [new_alert pk atype sev msg sysname now]
      | Some a \<Rightarrow>
          if message a \<noteq> msg
          then refresh_first (is_open_for pk sysname atype) (refreshed msg now) rows
          else rows)"

definition clear_rows :: "nat \<Rightarrow> json \<Rightarrow> string \<Rightarrow> nat \<Rightarrow> alert list \<Rightarrow> alert list" where
  "clear_rows pk sysname atype now rows =
     map (\<lambda>a. if is_open_for pk sysname atype a then resolved now a else a) rows"

text \<open>
  The temperature block is left by an exception when \<^verbatim>\<open>float\<close> raises something other
  than ValueError or TypeError; the battery block when the comparison of a truthy level
  raises, or the format of a level below the threshold does. The blocks after such a
  block are not run.
\<close>

definition temperature_block_completes :: "pylib \<Rightarrow> pydict \<Rightarrow> bool" where
  "temperature_block_completes L telemetry =
     (case read_temperature L (dict_get telemetry ''temperature'') of
        Inl e \<Rightarrow> False
      | Inr t \<Rightarrow> True)"

definition battery_block_completes :: "pylib \<Rightarrow> pydict \<Rightarrow> bool" where
  "battery_block_completes L telemetry =
     (let battery = dict_get telemetry ''battery_level'' in
      if truthy battery then
        (case less_float battery battery_low of
           Inl e \<Rightarrow> False
         | Inr True \<Rightarrow> (case format_number L battery of Inl e \<Rightarrow> False | Inr level \<Rightarrow> True)
         | Inr False \<Rightarrow> True)
      else True)"

subsection \<open>A concrete instance for running the model\<close>

text \<open>
  An instance of the builtins, used only to evaluate the model on concrete inputs: it
  reads unsigned decimal numerals, prints a float with one decimal digit (truncated) and
  quotes a string as it is.
\<close>

definition is_digit :: "char \<Rightarrow> bool" where
  "is_digit c = (48 \<le> (of_char c :: nat) \<and> (of_char c :: nat) \<le> 57)"

definition read_nat :: "string \<Rightarrow> nat" where
  "read_nat s = foldl (\<lambda>n c. 10 * n + (of_char c - 48)) 0 s"

fun demo_float_text :: "pyfloat \<Rightarrow> string" where
  "demo_float_text (Finite r) =
     (let a = \<bar>r\<bar> in
      (if r < 0 then ''-'' else []) @ show_nat (nat \<lfloor>a\<rfloor>) @ ''.''
        @ show_nat (nat \<lfloor>(a - of_int \<lfloor>a\<rfloor>) * 10\<rfloor>))"
| "demo_float_text PosInf = ''inf''"
| "demo_float_text NegInf = ''-inf''"
| "demo_float_text NaN = ''nan''"

definition demo_lib :: pylib where
  "demo_lib =
     \<lparr>float_of_str =
        (\<lambda>s. if s \<noteq> [] \<and> list_all is_digit s then Some (Finite (of_nat (read_nat s)))
             else None),
      str_of_float = demo_float_text,
      format_1f = demo_float_text,
      repr_of_str = (\<lambda>s. CHR 0x27 # s @ [CHR 0x27])\<rparr>"

text \<open>A world with the two factories registered, empty tables and a healthy store.\<close>

definition initial_world :: world where
  "initial_world =
     \<lparr>telemetry_rows = [], factories = [(1, None), (2, None)], alerts = [], console = [],
      faults = [], clock = 0\<rparr>"

section \<open>Lists\<close>

lemma length_filter_update:
  "P y = P (xs ! i) \<Longrightarrow> length (filter P (xs[i := y])) = length (filter P xs)"
proof (induction xs arbitrary: i)
  case Nil
  then show ?case by simp
next
  case (Cons x xs)
  then show ?case by (cases i) auto
qed

lemma length_filter_map_le:
  "(\<And>x. P (f x) \<Longrightarrow> P x) \<Longrightarrow> length (filter P (map f xs)) \<le> length (filter P xs)"
  by (induction xs) auto

lemma filter_map_unchanged:
  "(\<And>x. Q (f x) = Q x) \<Longrightarrow> (\<And>x. Q x \<Longrightarrow> f x = x) \<Longrightarrow> filter Q (map f xs) = filter Q xs"
  by (induction xs) auto

lemma filter_map_commute:
  "(\<And>x. Q (f x) = Q x) \<Longrightarrow> filter Q (map f xs) = map f (filter Q xs)"
  by (induction xs) auto

lemma filter_refresh_first_commute:
  "(\<And>a. P a \<Longrightarrow> Q a) \<Longrightarrow> (\<And>a. Q (f a) = Q a) \<Longrightarrow>
   filter Q (refresh_first P f rows) = refresh_first P f (filter Q rows)"
  by (induction rows) auto

lemma filter_refresh_first_unchanged:
  "(\<And>a. P a \<Longrightarrow> \<not> Q a) \<Longrightarrow> (\<And>a. Q (f a) = Q a) \<Longrightarrow>
   filter Q (refresh_first P f rows) = filter Q rows"
  by (induction rows) auto

lemma find_filter_narrow:
  "(\<And>a. P a \<Longrightarrow> Q a) \<Longrightarrow> find P (filter Q rows) = find P rows"
  by (induction rows) auto

lemma find_None_filter: "find P rows = None \<longleftrightarrow> filter P rows = []"
  by (induction rows) auto

lemma filter_enumerate_first:
  "filter (\<lambda>ir. P (snd ir)) (enumerate n xs) = (i, a) # rest \<Longrightarrow>
     n \<le> i \<and> i - n < length xs \<and> xs ! (i - n) = a \<and> P a \<and> find P xs = Some a \<and>
     refresh_first P f xs = xs[i - n := f a] \<and>
     (P a' \<longrightarrow> filter (\<lambda>ir. P (snd ir)) (enumerate n (xs[i - n := a'])) = (i, a') # rest)"
proof (induction xs arbitrary: n)
  case Nil
  then show ?case by simp
next
  case (Cons x xs)
  show ?case
  proof (cases "P x")
    case True
    with Cons.prems show ?thesis by auto
  next
    case False
    with Cons.prems have "filter (\<lambda>ir. P (snd ir)) (enumerate (Suc n) xs) = (i, a) # rest"
      by simp
    from Cons.IH [OF this]
    have ih: "Suc n \<le> i" "i - Suc n < length xs" "xs ! (i - Suc n) = a" "P a"
      "find P xs = Some a" "refresh_first P f xs = xs[i - Suc n := f a]"
      "P a' \<longrightarrow>
         filter (\<lambda>ir. P (snd ir)) (enumerate (Suc n) (xs[i - Suc n := a'])) = (i, a') # rest"
      by auto
    from ih(1) have eq: "i - n = Suc (i - Suc n)" by simp
    show ?thesis using ih False by (simp add: eq)
  qed
qed

section \<open>The store calls\<close>

lemma db_call_healthy: "faults w = [] \<Longrightarrow> db_call w = (False, w)"
  by (simp add: db_call_def)

lemma py_print_alerts [simp]: "alerts (py_print l w) = alerts w"
  by (simp add: py_print_def)

lemma py_print_faults [simp]: "faults (py_print l w) = faults w"
  by (simp add: py_print_def)

lemma py_print_clock [simp]: "clock (py_print l w) = clock w"
  by (simp add: py_print_def)

lemma py_print_factories [simp]: "factories (py_print l w) = factories w"
  by (simp add: py_print_def)

lemma py_print_telemetry_rows [simp]: "telemetry_rows (py_print l w) = telemetry_rows w"
  by (simp add: py_print_def)

lemma is_open_for_refreshed [simp]:
  "is_open_for pk sysname atype (refreshed msg now a) = is_open_for pk sysname atype a"
  by (simp add: is_open_for_def refreshed_def)

lemma is_open_for_resolved [simp]: "\<not> is_open_for pk sysname atype (resolved now a)"
  by (simp add: is_open_for_def resolved_def)

lemma is_open_for_new_alert [simp]:
  "is_open_for pk' sysname' atype' (new_alert pk atype sev msg sysname now) \<longleftrightarrow>
     pk' = pk \<and> sysname' = sysname \<and> atype' = atype"
  by (auto simp: is_open_for_def new_alert_def)

lemma alert_type_refreshed [simp]: "alert_type (refreshed msg now a) = alert_type a"
  by (simp add: refreshed_def)

lemma alert_type_resolved [simp]: "alert_type (resolved now a) = alert_type a"
  by (simp add: resolved_def)

lemma alert_type_new_alert [simp]: "alert_type (new_alert pk atype sev msg sysname now) = atype"
  by (simp add: new_alert_def)

lemma message_refreshed [simp]: "message (refreshed msg now a) = msg"
  by (simp add: refreshed_def)

lemma is_open_for_alert_type: "is_open_for pk sysname atype a \<Longrightarrow> alert_type a = atype"
  by (simp add: is_open_for_def)

lemma map_snd_select_open:
  "map snd (select_open pk sysname atype rows) = filter (is_open_for pk sysname atype) rows"
  unfolding select_open_def
  using filter_map [of "is_open_for pk sysname atype" snd "enumerate 0 rows"]
  by (simp add: comp_def)

lemma select_open_Nil_iff:
  "select_open pk sysname atype rows = [] \<longleftrightarrow> filter (is_open_for pk sysname atype) rows = []"
  using map_snd_select_open [of pk sysname atype rows] by (metis map_is_Nil_conv)

lemma select_open_first:
  assumes "select_open pk sysname atype rows = (i, a) # rest"
  shows "i < length rows" and "rows ! i = a" and "is_open_for pk sysname atype a"
    and "find (is_open_for pk sysname atype) rows = Some a"
    and "refresh_first (is_open_for pk sysname atype) f rows = rows[i := f a]"
    and "is_open_for pk sysname atype a' \<Longrightarrow>
         select_open pk sysname atype (rows[i := a']) = (i, a') # rest"
  using filter_enumerate_first [of "is_open_for pk sysname atype" 0 rows i a rest f a'] assms
  by (simp_all add: select_open_def)

lemma select_open_append:
  "select_open pk sysname atype (xs @ ys) =
     select_open pk sysname atype xs @
     filter (\<lambda>ir. is_open_for pk sysname atype (snd ir)) (enumerate (length xs) ys)"
  by (simp add: select_open_def enumerate_append_eq)

section \<open>The adapter on a healthy store, and under any faults\<close>

lemma create_unique_alert_healthy:
  "faults w = [] \<Longrightarrow>
   create_unique_alert pk atype sev msg sysname w =
     (case select_open pk sysname atype (alerts w) of
        [] \<Rightarrow> py_print (AlertCreated atype)
                (w\<lparr>alerts := alerts w @ [new_alert pk atype sev msg sysname (clock w)]\<rparr>)
      | (i, row) # _ \<Rightarrow>
          if message row \<noteq> msg
          then py_print (AlertUpdated atype)
                 (w\<lparr>alerts := (alerts w)[i := refreshed msg (clock w) (alerts w ! i)]\<rparr>)
          else w)"
  by (simp add: create_unique_alert_def db_call_healthy refreshed_def
      split: list.splits prod.splits)

lemma auto_acknowledge_alert_healthy:
  "faults w = [] \<Longrightarrow>
   auto_acknowledge_alert pk sysname atype w =
     w\<lparr>alerts := clear_rows pk sysname atype (clock w) (alerts w)\<rparr>"
  by (simp add: auto_acknowledge_alert_def db_call_healthy clear_rows_def resolved_def)

lemma create_unique_alert_faults:
  "faults w = [] \<Longrightarrow> faults (create_unique_alert pk atype sev msg sysname w) = []"
  by (simp add: create_unique_alert_healthy py_print_def split: list.splits)

lemma auto_acknowledge_alert_faults:
  "faults w = [] \<Longrightarrow> faults (auto_acknowledge_alert pk sysname atype w) = []"
  by (simp add: auto_acknowledge_alert_healthy)

lemma create_unique_alert_clock [simp]:
  "clock (create_unique_alert pk atype sev msg sysname w) = clock w"
  by (simp add: create_unique_alert_def db_call_def py_print_def split: list.splits prod.splits)

lemma auto_acknowledge_alert_clock [simp]:
  "clock (auto_acknowledge_alert pk sysname atype w) = clock w"
  by (simp add: auto_acknowledge_alert_def db_call_def split: list.splits prod.splits)

lemma create_unique_alert_rows:
  assumes "faults w = []"
  shows "alerts (create_unique_alert pk atype sev msg sysname w) =
           assert_rows pk sysname atype sev msg (clock w) (alerts w)"
proof (cases "select_open pk sysname atype (alerts w)")
  case Nil
  then have "find (is_open_for pk sysname atype) (alerts w) = None"
    by (simp add: find_None_filter select_open_Nil_iff)
  with Nil assms show ?thesis
    by (simp add: create_unique_alert_healthy assert_rows_def)
next
  case (Cons ir rest)
  obtain i row where ir: "ir = (i, row)" by (cases ir)
  note sel = Cons [unfolded ir]
  note first = select_open_first [OF sel]
  from first(2) first(5) [of "refreshed msg (clock w)"]
  have "refresh_first (is_open_for pk sysname atype) (refreshed msg (clock w)) (alerts w)
        = (alerts w)[i := refreshed msg (clock w) (alerts w ! i)]"
    by simp
  with sel first(4) assms show ?thesis
    by (simp add: create_unique_alert_healthy assert_rows_def)
qed

lemma auto_acknowledge_alert_rows:
  "faults w = [] \<Longrightarrow>
   alerts (auto_acknowledge_alert pk sysname atype w) =
     clear_rows pk sysname atype (clock w) (alerts w)"
  by (simp add: auto_acknowledge_alert_healthy)

lemma create_unique_alert_alerts:
  "alerts (create_unique_alert pk atype sev msg sysname w) = alerts w \<or>
   (select_open pk sysname atype (alerts w) = [] \<and>
    alerts (create_unique_alert pk atype sev msg sysname w) =
      alerts w @ [new_alert pk atype sev msg sysname (clock w)]) \<or>
   (\<exists>i row rest. select_open pk sysname atype (alerts w) = (i, row) # rest \<and>
      message row \<noteq> msg \<and>
      alerts (create_unique_alert pk atype sev msg sysname w) =
        (alerts w)[i := refreshed msg (clock w) (alerts w ! i)])"
  by (auto simp: create_unique_alert_def db_call_def refreshed_def
      split: list.splits prod.splits)

lemma auto_acknowledge_alert_alerts:
  "alerts (auto_acknowledge_alert pk sysname atype w) = alerts w \<or>
   alerts (auto_acknowledge_alert pk sysname atype w) =
     clear_rows pk sysname atype (clock w) (alerts w)"
  by (auto simp: auto_acknowledge_alert_def db_call_def resolved_def clear_rows_def
      split: list.splits prod.splits)

section \<open>At most one open alert per tuple\<close>

lemma create_unique_alert_open_bound:
  assumes "length (open_alerts pk' sysname' atype' w) \<le> 1"
  shows "length (open_alerts pk' sysname' atype'
           (create_unique_alert pk atype sev msg sysname w)) \<le> 1"
proof -
  let ?w' = "create_unique_alert pk atype sev msg sysname w"
  let ?P = "is_open_for pk' sysname' atype'"
  consider (same) "alerts ?w' = alerts w"
    | (ins) "select_open pk sysname atype (alerts w) = []"
        "alerts ?w' = alerts w @ [new_alert pk atype sev msg sysname (clock w)]"
    | (upd) i row rest where "select_open pk sysname atype (alerts w) = (i, row) # rest"
        "alerts ?w' = (alerts w)[i := refreshed msg (clock w) (alerts w ! i)]"
    using create_unique_alert_alerts [of pk atype sev msg sysname w] by blast
  then show ?thesis
  proof cases
    case same
    with assms show ?thesis by (simp add: open_alerts_def)
  next
    case ins
    show ?thesis
    proof (cases "pk' = pk \<and> sysname' = sysname \<and> atype' = atype")
      case True
      with ins(1) have "filter ?P (alerts w) = []" by (simp add: select_open_Nil_iff)
      with ins(2) True show ?thesis by (simp add: open_alerts_def)
    next
      case False
      with ins(2) assms show ?thesis by (auto simp: open_alerts_def)
    qed
  next
    case upd
    have "length (filter ?P ((alerts w)[i := refreshed msg (clock w) (alerts w ! i)]))
          = length (filter ?P (alerts w))"
      by (rule length_filter_update) simp
    with upd(2) assms show ?thesis by (simp add: open_alerts_def)
  qed
qed

lemma auto_acknowledge_alert_open_bound:
  assumes "length (open_alerts pk' sysname' atype' w) \<le> 1"
  shows "length (open_alerts pk' sysname' atype'
           (auto_acknowledge_alert pk sysname atype w)) \<le> 1"
proof -
  have "length (filter (is_open_for pk' sysname' atype')
                  (clear_rows pk sysname atype (clock w) (alerts w)))
        \<le> length (filter (is_open_for pk' sysname' atype') (alerts w))"
    unfolding clear_rows_def by (rule length_filter_map_le) (simp split: if_splits)
  with assms auto_acknowledge_alert_alerts [of pk sysname atype w] show ?thesis
    by (auto simp: open_alerts_def)
qed

lemma reconcile_open_bound:
  assumes "length (open_alerts pk' sysname' atype' w) \<le> 1"
  shows "length (open_alerts pk' sysname' atype' (reconcile pk sysname atype act w)) \<le> 1"
  using create_unique_alert_open_bound [OF assms] auto_acknowledge_alert_open_bound [OF assms]
  by (cases act) (simp_all add: reconcile_def)

lemma reconcile_all_open_bound:
  "length (open_alerts pk' sysname' atype' w) \<le> 1 \<Longrightarrow>
   length (open_alerts pk' sysname' atype' (reconcile_all ops w)) \<le> 1"
proof (induction ops arbitrary: w)
  case Nil
  then show ?case by simp
next
  case (Cons op ops)
  obtain now pk sysname atype act where op: "op = (now, pk, sysname, atype, act)"
    by (cases op) auto
  from Cons.prems have "length (open_alerts pk' sysname' atype' (w\<lparr>clock := now\<rparr>)) \<le> 1"
    by (simp add: open_alerts_def)
  then have "length (open_alerts pk' sysname' atype'
               (reconcile pk sysname atype act (w\<lparr>clock := now\<rparr>))) \<le> 1"
    by (rule reconcile_open_bound)
  then show ?case using Cons.IH by (simp add: op)
qed

lemma select_open_Cons_open:
  assumes "select_open pk sysname atype rows = (i, row) # rest"
  shows "i < length rows \<and> is_open_for pk sysname atype (rows ! i)"
  using select_open_first(1,2,3) [OF assms] by simp

text \<open>
  C2. For every run of Assert and Clear reconciliations, under any faults of the store
  and for every tuple (so for every alert type other than UNAUTHORIZED_ACCESS, whose
  alerts are inserted on another path): a tuple with at most one open alert before the
  run has at most one after it. An Assert leaves the table as it is, or appends one row
  when the tuple has no open alert, or refreshes one open row of the tuple in place; a
  Clear leaves the table as it is or acknowledges the open rows of the tuple and changes
  no other row.
\<close>

theorem at_most_one_open_alert:
  assumes "length (open_alerts pk sysname atype w) \<le> 1"
  shows "length (open_alerts pk sysname atype (reconcile_all ops w)) \<le> 1 \<and>
    (alerts (reconcile pk' sysname' atype' (Assert sev msg) v) = alerts v \<or>
     (open_alerts pk' sysname' atype' v = [] \<and>
      alerts (reconcile pk' sysname' atype' (Assert sev msg) v) =
        alerts v @ [new_alert pk' atype' sev msg sysname' (clock v)]) \<or>
     (\<exists>i. i < length (alerts v) \<and> is_open_for pk' sysname' atype' (alerts v ! i) \<and>
        alerts (reconcile pk' sysname' atype' (Assert sev msg) v) =
          (alerts v)[i := refreshed msg (clock v) (alerts v ! i)])) \<and>
    (alerts (reconcile pk' sysname' atype' Clear v) = alerts v \<or>
     alerts (reconcile pk' sysname' atype' Clear v) =
       map (\<lambda>a. if is_open_for pk' sysname' atype' a then resolved (clock v) a else a)
         (alerts v))"
proof (intro conjI)
  show "length (open_alerts pk sysname atype (reconcile_all ops w)) \<le> 1"
    using assms by (rule reconcile_all_open_bound)
next
  show "alerts (reconcile pk' sysname' atype' (Assert sev msg) v) = alerts v \<or>
     (open_alerts pk' sysname' atype' v = [] \<and>
      alerts (reconcile pk' sysname' atype' (Assert sev msg) v) =
        alerts v @ [new_alert pk' atype' sev msg sysname' (clock v)]) \<or>
     (\<exists>i. i < length (alerts v) \<and> is_open_for pk' sysname' atype' (alerts v ! i) \<and>
        alerts (reconcile pk' sysname' atype' (Assert sev msg) v) =
          (alerts v)[i := refreshed msg (clock v) (alerts v ! i)])"
    using create_unique_alert_alerts [of pk' atype' sev msg sysname' v]
    by (auto simp: reconcile_def open_alerts_def select_open_Nil_iff
        dest: select_open_Cons_open)
next
  show "alerts (reconcile pk' sysname' atype' Clear v) = alerts v \<or>
     alerts (reconcile pk' sysname' atype' Clear v) =
       map (\<lambda>a. if is_open_for pk' sysname' atype' a then resolved (clock v) a else a)
         (alerts v)"
    using auto_acknowledge_alert_alerts [of pk' sysname' atype' v]
    by (simp add: reconcile_def clear_rows_def)
qed

theorem at_most_one_open_alert_witness:
  "length (open_alerts 1 (JStr ''HVAC_System'') ''HIGH_TEMPERATURE''
     (initial_world\<lparr>faults := [False, False, True]\<rparr>)) \<le> 1 \<and>
   length (open_alerts 1 (JStr ''HVAC_System'') ''HIGH_TEMPERATURE''
     (reconcile_all
        [(1, 1, JStr ''HVAC_System'', ''HIGH_TEMPERATURE'', Assert ''WARNING'' ''35.0''),
         (2, 1, JStr ''HVAC_System'', ''HIGH_TEMPERATURE'', Assert ''WARNING'' ''36.5''),
         (3, 1, JStr ''HVAC_System'', ''LOW_TEMPERATURE'', Clear),
         (4, 1, JStr ''HVAC_System'', ''HIGH_TEMPERATURE'', Assert ''WARNING'' ''36.5'')]
        (initial_world\<lparr>faults := [False, False, True]\<rparr>))) \<le> 1"
proof -
  have h: "length (open_alerts 1 (JStr ''HVAC_System'') ''HIGH_TEMPERATURE''
     (initial_world\<lparr>faults := [False, False, True]\<rparr>)) \<le> 1"
    by (simp add: open_alerts_def initial_world_def)
  from at_most_one_open_alert [OF h] h show ?thesis by blast
qed

section \<open>Reconciling an Assert\<close>

lemma length_refresh_first [simp]: "length (refresh_first P f rows) = length rows"
  by (induction rows) auto

lemma create_unique_alert_again:
  assumes "faults w = []"
  shows "create_unique_alert pk atype sev msg sysname
           ((create_unique_alert pk atype sev msg sysname w)\<lparr>clock := later\<rparr>)
         = (create_unique_alert pk atype sev msg sysname w)\<lparr>clock := later\<rparr>"
proof (cases "select_open pk sysname atype (alerts w)")
  case Nil
  let ?a = "new_alert pk atype sev msg sysname (clock w)"
  let ?w1 = "py_print (AlertCreated atype) (w\<lparr>alerts := alerts w @ [?a]\<rparr>)"
  from Nil assms have w1: "create_unique_alert pk atype sev msg sysname w = ?w1"
    by (simp add: create_unique_alert_healthy)
  have sel: "select_open pk sysname atype (alerts w @ [?a]) = [(length (alerts w), ?a)]"
    using Nil by (simp add: select_open_append)
  have "message ?a = msg" by (simp add: new_alert_def)
  with sel assms show ?thesis
    unfolding w1 by (simp add: create_unique_alert_healthy py_print_def)
next
  case (Cons ir rest)
  obtain i row where ir: "ir = (i, row)" by (cases ir)
  note sel = Cons [unfolded ir]
  show ?thesis
  proof (cases "message row = msg")
    case True
    with sel assms have "create_unique_alert pk atype sev msg sysname w = w"
      by (simp add: create_unique_alert_healthy)
    with sel True assms show ?thesis by (simp add: create_unique_alert_healthy)
  next
    case False
    let ?a = "refreshed msg (clock w) (alerts w ! i)"
    let ?w1 = "py_print (AlertUpdated atype) (w\<lparr>alerts := (alerts w)[i := ?a]\<rparr>)"
    from False sel assms have w1: "create_unique_alert pk atype sev msg sysname w = ?w1"
      by (simp add: create_unique_alert_healthy)
    have "is_open_for pk sysname atype ?a"
      using select_open_first(2,3) [OF sel] by simp
    then have "select_open pk sysname atype ((alerts w)[i := ?a]) = (i, ?a) # rest"
      by (rule select_open_first(6) [OF sel])
    with assms show ?thesis
      unfolding w1 by (simp add: create_unique_alert_healthy py_print_def)
  qed
qed

lemma length_assert_rows:
  "length (assert_rows pk sysname atype sev msg now rows) =
     length rows + (if filter (is_open_for pk sysname atype) rows = [] then 1 else 0)"
  by (cases "find (is_open_for pk sysname atype) rows")
     (auto simp: assert_rows_def find_None_filter [symmetric])

text \<open>
  C3. On a store whose calls succeed, \<^verbatim>\<open>_create_unique_alert\<close> for a tuple with no
  open alert appends a new open alert; with an open alert whose message differs it
  rewrites message and creation time of that row, by its id, and inserts nothing; with
  an equal message it changes nothing at all. A second identical call, at any later
  time, changes nothing, and the two calls together add one row exactly when the tuple
  had no open alert before (none otherwise); on an empty table they store one row.
\<close>

theorem assert_reconciliation:
  assumes "faults w = []"
  shows
    "(select_open pk sysname atype (alerts w) = [] \<longrightarrow>
        alerts (create_unique_alert pk atype sev msg sysname w) =
          alerts w @ [new_alert pk atype sev msg sysname (clock w)]) \<and>
     (\<forall>i row rest. select_open pk sysname atype (alerts w) = (i, row) # rest \<longrightarrow>
        i < length (alerts w) \<and> alerts w ! i = row \<and>
        (message row \<noteq> msg \<longrightarrow>
           alerts (create_unique_alert pk atype sev msg sysname w) =
             (alerts w)[i := row\<lparr>message := msg, created_at := clock w\<rparr>]) \<and>
        (message row = msg \<longrightarrow> create_unique_alert pk atype sev msg sysname w = w)) \<and>
     create_unique_alert pk atype sev msg sysname
       ((create_unique_alert pk atype sev msg sysname w)\<lparr>clock := later\<rparr>) =
       (create_unique_alert pk atype sev msg sysname w)\<lparr>clock := later\<rparr> \<and>
     length (alerts (create_unique_alert pk atype sev msg sysname
               ((create_unique_alert pk atype sev msg sysname w)\<lparr>clock := later\<rparr>))) =
       length (alerts w) + (if open_alerts pk sysname atype w = [] then 1 else 0) \<and>
     (alerts w = [] \<longrightarrow>
        alerts (create_unique_alert pk atype sev msg sysname
                  ((create_unique_alert pk atype sev msg sysname w)\<lparr>clock := later\<rparr>)) =
          [new_alert pk atype sev msg sysname (clock w)])"
proof -
  let ?w' = "create_unique_alert pk atype sev msg sysname w"
  have again: "create_unique_alert pk atype sev msg sysname (?w'\<lparr>clock := later\<rparr>) =
                 ?w'\<lparr>clock := later\<rparr>"
    using assms by (rule create_unique_alert_again)
  have ins: "select_open pk sysname atype (alerts w) = [] \<longrightarrow>
        alerts ?w' = alerts w @ [new_alert pk atype sev msg sysname (clock w)]"
    using assms by (simp add: create_unique_alert_healthy)
  have upd: "\<forall>i row rest. select_open pk sysname atype (alerts w) = (i, row) # rest \<longrightarrow>
        i < length (alerts w) \<and> alerts w ! i = row \<and>
        (message row \<noteq> msg \<longrightarrow>
           alerts ?w' = (alerts w)[i := row\<lparr>message := msg, created_at := clock w\<rparr>]) \<and>
        (message row = msg \<longrightarrow> ?w' = w)"
  proof (intro allI impI)
    fix i row rest
    assume sel: "select_open pk sysname atype (alerts w) = (i, row) # rest"
    from select_open_first(1,2) [OF sel] sel assms
    show "i < length (alerts w) \<and> alerts w ! i = row \<and>
        (message row \<noteq> msg \<longrightarrow>
           alerts ?w' = (alerts w)[i := row\<lparr>message := msg, created_at := clock w\<rparr>]) \<and>
        (message row = msg \<longrightarrow> ?w' = w)"
      by (simp add: create_unique_alert_healthy refreshed_def)
  qed
  have len: "length (alerts ?w') =
       length (alerts w) + (if open_alerts pk sysname atype w = [] then 1 else 0)"
    using assms by (simp add: create_unique_alert_rows length_assert_rows open_alerts_def)
  have empty: "alerts w = [] \<longrightarrow> alerts ?w' = [new_alert pk atype sev msg sysname (clock w)]"
    using ins by (simp add: select_open_def)
  from ins upd again len empty show ?thesis by simp
qed

theorem assert_reconciliation_witness:
  "faults initial_world = [] \<and>
   alerts (create_unique_alert 1 ''LOW_BATTERY'' ''WARNING'' ''9.0'' (JStr ''Battery_System'')
     ((create_unique_alert 1 ''LOW_BATTERY'' ''WARNING'' ''9.0'' (JStr ''Battery_System'')
         initial_world)\<lparr>clock := 7\<rparr>)) =
     [new_alert 1 ''LOW_BATTERY'' ''WARNING'' ''9.0'' (JStr ''Battery_System'') 0]"
proof -
  have h: "faults initial_world = []" by (simp add: initial_world_def)
  have e: "alerts initial_world = []" by (simp add: initial_world_def)
  have c: "clock initial_world = 0" by (simp add: initial_world_def)
  from assert_reconciliation [OF h, of 1 "JStr ''Battery_System''" "''LOW_BATTERY''"
      "''WARNING''" "''9.0''" 7]
  have "alerts initial_world = [] \<longrightarrow>
        alerts (create_unique_alert 1 ''LOW_BATTERY'' ''WARNING'' ''9.0'' (JStr ''Battery_System'')
          ((create_unique_alert 1 ''LOW_BATTERY'' ''WARNING'' ''9.0'' (JStr ''Battery_System'')
              initial_world)\<lparr>clock := 7\<rparr>)) =
          [new_alert 1 ''LOW_BATTERY'' ''WARNING'' ''9.0'' (JStr ''Battery_System'')
             (clock initial_world)]"
    by blast
  with h e c show ?thesis by simp
qed

section \<open>The rule engine on a healthy store\<close>

lemma alerts_of_type_assert_rows_other:
  "atype' \<noteq> atype \<Longrightarrow>
   alerts_of_type atype' (assert_rows pk sysname atype sev msg now rows) =
     alerts_of_type atype' rows"
  by (cases "find (is_open_for pk sysname atype) rows")
     (auto simp: assert_rows_def alerts_of_type_def is_open_for_alert_type
        intro!: filter_refresh_first_unchanged)

lemma alerts_of_type_assert_rows_same:
  "alerts_of_type atype (assert_rows pk sysname atype sev msg now rows) =
     assert_rows pk sysname atype sev msg now (alerts_of_type atype rows)"
proof -
  have narrow: "find (is_open_for pk sysname atype) (filter (\<lambda>a. alert_type a = atype) rows)
        = find (is_open_for pk sysname atype) rows"
    by (rule find_filter_narrow) (rule is_open_for_alert_type)
  have commute: "filter (\<lambda>a. alert_type a = atype)
          (refresh_first (is_open_for pk sysname atype) (refreshed msg now) rows)
        = refresh_first (is_open_for pk sysname atype) (refreshed msg now)
            (filter (\<lambda>a. alert_type a = atype) rows)"
    by (rule filter_refresh_first_commute) (simp_all add: is_open_for_alert_type)
  show ?thesis
    by (cases "find (is_open_for pk sysname atype) rows")
       (simp_all add: assert_rows_def alerts_of_type_def narrow commute)
qed

lemma alerts_of_type_clear_rows_other:
  "atype' \<noteq> atype \<Longrightarrow>
   alerts_of_type atype' (clear_rows pk sysname atype now rows) = alerts_of_type atype' rows"
  unfolding alerts_of_type_def clear_rows_def
  by (rule filter_map_unchanged) (auto dest: is_open_for_alert_type)

lemma alerts_of_type_clear_rows_same:
  "alerts_of_type atype (clear_rows pk sysname atype now rows) =
     clear_rows pk sysname atype now (alerts_of_type atype rows)"
  unfolding alerts_of_type_def clear_rows_def
  by (rule filter_map_commute) simp

lemma alerts_of_type_append [simp]:
  "alerts_of_type atype (xs @ ys) = alerts_of_type atype xs @ alerts_of_type atype ys"
  by (simp add: alerts_of_type_def)

lemma alerts_of_type_new_alert [simp]:
  "alerts_of_type atype' [new_alert pk atype sev msg sysname now] =
     (if atype = atype' then [new_alert pk atype sev msg sysname now] else [])"
  by (simp add: alerts_of_type_def)

lemma open_alerts_of_type:
  "open_alerts pk sysname atype w =
     filter (is_open_for pk sysname atype) (alerts_of_type atype (alerts w))"
proof -
  have "filter (is_open_for pk sysname atype) (filter (\<lambda>a. alert_type a = atype) (alerts w))
        = filter (is_open_for pk sysname atype) (alerts w)"
    by (auto simp: is_open_for_alert_type intro: filter_cong)
  then show ?thesis by (simp add: open_alerts_def alerts_of_type_def)
qed

lemma open_assert_rows:
  "filter (is_open_for pk sysname atype) (assert_rows pk sysname atype sev msg now rows) \<noteq> []"
proof (cases "find (is_open_for pk sysname atype) rows")
  case None
  then show ?thesis by (simp add: assert_rows_def)
next
  case (Some a)
  then have "filter (is_open_for pk sysname atype) rows \<noteq> []"
    by (simp add: find_None_filter [symmetric])
  moreover have "length (filter (is_open_for pk sysname atype)
      (refresh_first (is_open_for pk sysname atype) (refreshed msg now) rows))
    = length (filter (is_open_for pk sysname atype) rows)"
    by (induction rows) auto
  ultimately show ?thesis using Some by (auto simp: assert_rows_def)
qed

lemma open_clear_rows:
  "filter (is_open_for pk sysname atype) (clear_rows pk sysname atype now rows) = []"
  by (induction rows) (auto simp: clear_rows_def)

subsection \<open>The four blocks\<close>

lemma fire_rule_healthy:
  assumes "faults w = []"
  shows "faults (fire_rule L pk telemetry sysname w) = []"
    and "clock (fire_rule L pk telemetry sysname w) = clock w"
    and "alerts (fire_rule L pk telemetry sysname w) =
      (let status = upper (py_str L (dict_get_or telemetry ''fire_status'' (JStr []))) in
       if contains ''FIRE'' status \<and> status \<noteq> ''SAFE''
       then assert_rows pk sysname ''FIRE_DETECTED'' ''CRITICAL''
              (fire_message L (dict_get_or telemetry ''fire_sensor_val'' (JStr ''N/A'')))
              (clock w) (alerts w)
       else clear_rows pk sysname ''FIRE_DETECTED'' (clock w) (alerts w))"
  using assms
  by (simp_all add: fire_rule_def Let_def create_unique_alert_faults
      auto_acknowledge_alert_faults create_unique_alert_rows auto_acknowledge_alert_rows)

lemma temperature_rule_healthy:
  assumes "faults w = []" and "temperature_rule L pk telemetry sysname w = (r, w')"
  shows "faults w' = []"
    and "clock w' = clock w"
    and "r = (case read_temperature L (dict_get telemetry ''temperature'') of
                Inl e \<Rightarrow> Some e | Inr _ \<Rightarrow> None)"
    and "alerts w' =
      (case read_temperature L (dict_get telemetry ''temperature'') of
         Inr (Some temp) \<Rightarrow>
           if float_less temperature_high temp then
             assert_rows pk sysname ''HIGH_TEMPERATURE'' ''WARNING''
               (high_temperature_message L temp
                  (dict_get_or telemetry ''ac_state'' (JStr ''N/A'')))
               (clock w) (alerts w)
           else if float_less temp temperature_low then
             assert_rows pk sysname ''LOW_TEMPERATURE'' ''WARNING''
               (low_temperature_message L temp
                  (dict_get_or telemetry ''furnace_state'' (JStr ''N/A'')))
               (clock w) (alerts w)
           else clear_rows pk sysname ''LOW_TEMPERATURE'' (clock w)
                  (clear_rows pk sysname ''HIGH_TEMPERATURE'' (clock w) (alerts w))
       | _ \<Rightarrow> alerts w)"
  using assms
  by (auto simp: temperature_rule_def create_unique_alert_faults
      auto_acknowledge_alert_faults create_unique_alert_rows auto_acknowledge_alert_rows
      split: sum.splits option.splits if_splits)

lemma battery_rule_healthy:
  assumes "faults w = []" and "battery_rule L pk telemetry sysname w = (r, w')"
  shows "faults w' = []"
    and "clock w' = clock w"
    and "alerts w' = alerts w \<or>
         (\<exists>level. alerts w' = assert_rows pk sysname ''LOW_BATTERY'' ''WARNING''
            (battery_message L level (dict_get_or telemetry ''led_brightness'' (JStr ''N/A'')))
            (clock w) (alerts w)) \<or>
         alerts w' = clear_rows pk sysname ''LOW_BATTERY'' (clock w) (alerts w)"
  using assms
  by (auto simp: battery_rule_def Let_def create_unique_alert_faults
      auto_acknowledge_alert_faults create_unique_alert_rows auto_acknowledge_alert_rows
      split: sum.splits bool.splits if_splits)

lemma battery_rule_rows:
  assumes "faults w = []" and "battery_rule L pk telemetry sysname w = (r, w')"
  shows "alerts w' =
      (let battery = dict_get telemetry ''battery_level'' in
       if truthy battery then
         (case less_float battery battery_low of
            Inl e \<Rightarrow> alerts w
          | Inr True \<Rightarrow>
              (case format_number L battery of
                 Inl e \<Rightarrow> alerts w
               | Inr level \<Rightarrow>
                   assert_rows pk sysname ''LOW_BATTERY'' ''WARNING''
                     (battery_message L level
                        (dict_get_or telemetry ''led_brightness'' (JStr ''N/A'')))
                     (clock w) (alerts w))
          | Inr False \<Rightarrow> clear_rows pk sysname ''LOW_BATTERY'' (clock w) (alerts w))
       else alerts w)"
    and "r = None \<longleftrightarrow> battery_block_completes L telemetry"
  using assms
  by (auto simp: battery_rule_def battery_block_completes_def Let_def
      create_unique_alert_rows auto_acknowledge_alert_rows
      split: sum.splits bool.splits if_splits)

lemma access_rule_healthy:
  assumes "faults w = []" and "access_rule L pk telemetry sysname w = (r, w')"
  shows "faults w' = []"
    and "clock w' = clock w"
    and "r = None"
    and "alerts w' =
      (if dict_get telemetry ''access_log'' = JStr ''DENIED''
       then alerts w @ [new_alert pk ''UNAUTHORIZED_ACCESS'' ''WARNING''
              (access_message L (dict_get_or telemetry ''rfid_last_card'' (JStr ''Unknown'')))
              sysname (clock w)]
       else alerts w)"
  using assms
  by (auto simp: access_rule_def Let_def db_call_healthy split: if_splits)

subsection \<open>Frames: a block changes the rows of its own alert types only\<close>

lemma fire_rule_frame:
  assumes "faults w = []" and "atype \<noteq> ''FIRE_DETECTED''"
  shows "alerts_of_type atype (alerts (fire_rule L pk telemetry sysname w)) =
           alerts_of_type atype (alerts w)"
  using assms(2)
  by (simp add: fire_rule_healthy(3) [OF assms(1)] Let_def
      alerts_of_type_assert_rows_other alerts_of_type_clear_rows_other)

lemma temperature_rule_frame:
  assumes "faults w = []" and "temperature_rule L pk telemetry sysname w = (r, w')"
    and "atype \<noteq> ''HIGH_TEMPERATURE''" and "atype \<noteq> ''LOW_TEMPERATURE''"
  shows "alerts_of_type atype (alerts w') = alerts_of_type atype (alerts w)"
  using assms(3,4)
  by (simp add: temperature_rule_healthy(4) [OF assms(1,2)]
      alerts_of_type_assert_rows_other alerts_of_type_clear_rows_other
      split: sum.splits option.splits)

lemma battery_rule_frame:
  assumes "faults w = []" and "battery_rule L pk telemetry sysname w = (r, w')"
    and "atype \<noteq> ''LOW_BATTERY''"
  shows "alerts_of_type atype (alerts w') = alerts_of_type atype (alerts w)"
  using battery_rule_healthy(3) [OF assms(1,2)] assms(3)
  by (auto simp: alerts_of_type_assert_rows_other alerts_of_type_clear_rows_other)

lemma access_rule_frame:
  assumes "faults w = []" and "access_rule L pk telemetry sysname w = (r, w')"
    and "atype \<noteq> ''UNAUTHORIZED_ACCESS''"
  shows "alerts_of_type atype (alerts w') = alerts_of_type atype (alerts w)"
  using assms(3) by (simp add: access_rule_healthy(4) [OF assms(1,2)])

subsection \<open>The four blocks in sequence\<close>

lemma factory_lookup_known:
  "factory_lookup factory = Inr (Some pk) \<Longrightarrow>
   (factory = JStr ''factory_1'' \<and> pk = 1) \<or> (factory = JStr ''factory_2'' \<and> pk = 2)"
  by (cases factory) (auto simp: factory_lookup_def str_key_get_def split: if_splits)

lemma check_and_create_alerts_healthy:
  assumes known: "factory_lookup factory = Inr (Some pk)" and healthy: "faults w = []"
  obtains r2 w2 r3 w3 w4 where
    "temperature_rule L pk telemetry sysname (fire_rule L pk telemetry sysname w) = (r2, w2)"
    and "battery_rule L pk telemetry sysname w2 = (r3, w3)"
    and "access_rule L pk telemetry sysname w3 = (None, w4)"
    and "faults w2 = []" and "faults w3 = []"
    and "clock w2 = clock w" and "clock w3 = clock w"
    and "alerts (check_and_create_alerts L telemetry factory sysname w) =
           (if r2 \<noteq> None then alerts w2 else if r3 \<noteq> None then alerts w3 else alerts w4)"
proof -
  let ?w1 = "fire_rule L pk telemetry sysname w"
  obtain r2 w2 where t: "temperature_rule L pk telemetry sysname ?w1 = (r2, w2)"
    by (cases "temperature_rule L pk telemetry sysname ?w1")
  obtain r3 w3 where b: "battery_rule L pk telemetry sysname w2 = (r3, w3)"
    by (cases "battery_rule L pk telemetry sysname w2")
  obtain r4 w4 where a: "access_rule L pk telemetry sysname w3 = (r4, w4)"
    by (cases "access_rule L pk telemetry sysname w3")
  note h1 = fire_rule_healthy(1,2) [OF healthy, of L pk telemetry sysname]
  note h2 = temperature_rule_healthy(1,2) [OF h1(1) t]
  note h3 = battery_rule_healthy(1,2) [OF h2(1) b]
  have r4: "r4 = None" using access_rule_healthy(3) [OF h3(1) a] .
  from factory_lookup_known [OF known] have pk: "pk \<noteq> 0" by auto
  have "alerts (check_and_create_alerts L telemetry factory sysname w) =
           (if r2 \<noteq> None then alerts w2 else if r3 \<noteq> None then alerts w3 else alerts w4)"
    using known pk t b a r4
    by (auto simp: check_and_create_alerts_def Let_def)
  then show thesis
    using t b a r4 h1 h2 h3 that by simp
qed

lemma check_and_create_alerts_fire_rows:
  assumes "factory_lookup factory = Inr (Some pk)" and "faults w = []"
  shows "alerts_of_type ''FIRE_DETECTED''
           (alerts (check_and_create_alerts L telemetry factory sysname w)) =
         alerts_of_type ''FIRE_DETECTED'' (alerts (fire_rule L pk telemetry sysname w))"
proof -
  let ?w1 = "fire_rule L pk telemetry sysname w"
  from assms obtain r2 w2 r3 w3 w4 where
    t: "temperature_rule L pk telemetry sysname ?w1 = (r2, w2)"
    and b: "battery_rule L pk telemetry sysname w2 = (r3, w3)"
    and a: "access_rule L pk telemetry sysname w3 = (None, w4)"
    and h: "faults w2 = []" "faults w3 = []"
    and res: "alerts (check_and_create_alerts L telemetry factory sysname w) =
           (if r2 \<noteq> None then alerts w2 else if r3 \<noteq> None then alerts w3 else alerts w4)"
    by (rule check_and_create_alerts_healthy [where L = L and telemetry = telemetry
          and sysname = sysname]) blast
  have h1: "faults ?w1 = []" using assms(2) by (rule fire_rule_healthy(1))
  have f2: "alerts_of_type ''FIRE_DETECTED'' (alerts w2) =
            alerts_of_type ''FIRE_DETECTED'' (alerts ?w1)"
    by (rule temperature_rule_frame [OF h1 t]) simp_all
  have f3: "alerts_of_type ''FIRE_DETECTED'' (alerts w3) =
            alerts_of_type ''FIRE_DETECTED'' (alerts w2)"
    by (rule battery_rule_frame [OF h(1) b]) simp
  have f4: "alerts_of_type ''FIRE_DETECTED'' (alerts w4) =
            alerts_of_type ''FIRE_DETECTED'' (alerts w3)"
    by (rule access_rule_frame [OF h(2) a]) simp
  from res f2 f3 f4 show ?thesis by simp
qed

text \<open>
  C4. For every telemetry record, a known factory and a store whose calls succeed: the
  FIRE_DETECTED rows after \<^verbatim>\<open>_check_and_create_alerts\<close> are those of an Assert with
  severity CRITICAL when the status, as a string in upper case, contains \<open>FIRE\<close> and is
  not \<open>SAFE\<close>, and those of a Clear otherwise; so the tuple has an open FIRE_DETECTED
  alert afterwards exactly when the condition holds. The statuses \<open>FIRE_1\<close> and
  \<open>FIRE_SAFE\<close> meet the condition, \<open>SAFE\<close> does not.
\<close>

theorem fire_detected_rule:
  assumes "factory_lookup factory = Inr (Some pk)" and "faults w = []"
  shows
    "alerts_of_type ''FIRE_DETECTED''
       (alerts (check_and_create_alerts L telemetry factory sysname w)) =
       (let status = upper (py_str L (dict_get_or telemetry ''fire_status'' (JStr []))) in
        if contains ''FIRE'' status \<and> status \<noteq> ''SAFE''
        then assert_rows pk sysname ''FIRE_DETECTED'' ''CRITICAL''
               (fire_message L (dict_get_or telemetry ''fire_sensor_val'' (JStr ''N/A'')))
               (clock w) (alerts_of_type ''FIRE_DETECTED'' (alerts w))
        else clear_rows pk sysname ''FIRE_DETECTED'' (clock w)
               (alerts_of_type ''FIRE_DETECTED'' (alerts w))) \<and>
     (open_alerts pk sysname ''FIRE_DETECTED''
        (check_and_create_alerts L telemetry factory sysname w) \<noteq> [] \<longleftrightarrow>
      (let status = upper (py_str L (dict_get_or telemetry ''fire_status'' (JStr []))) in
       contains ''FIRE'' status \<and> status \<noteq> ''SAFE''))"
proof -
  let ?w' = "check_and_create_alerts L telemetry factory sysname w"
  let ?status = "upper (py_str L (dict_get_or telemetry ''fire_status'' (JStr [])))"
  let ?msg = "fire_message L (dict_get_or telemetry ''fire_sensor_val'' (JStr ''N/A''))"
  let ?F = "alerts_of_type ''FIRE_DETECTED''"
  have rows: "?F (alerts ?w') =
       (if contains ''FIRE'' ?status \<and> ?status \<noteq> ''SAFE''
        then assert_rows pk sysname ''FIRE_DETECTED'' ''CRITICAL'' ?msg (clock w) (?F (alerts w))
        else clear_rows pk sysname ''FIRE_DETECTED'' (clock w) (?F (alerts w)))"
    by (simp add: check_and_create_alerts_fire_rows [OF assms] fire_rule_healthy(3) [OF assms(2)]
        Let_def alerts_of_type_assert_rows_same alerts_of_type_clear_rows_same)
  have "open_alerts pk sysname ''FIRE_DETECTED'' ?w' \<noteq> [] \<longleftrightarrow>
        contains ''FIRE'' ?status \<and> ?status \<noteq> ''SAFE''"
    unfolding open_alerts_of_type rows
    by (simp add: open_assert_rows open_clear_rows)
  with rows show ?thesis by (simp add: Let_def)
qed

theorem fire_detected_rule_witness:
  "factory_lookup (JStr ''factory_1'') = Inr (Some 1) \<and> faults initial_world = [] \<and>
   open_alerts 1 (JStr ''Fire_Control'') ''FIRE_DETECTED''
     (check_and_create_alerts demo_lib [(''fire_status'', JStr ''FIRE_1'')] (JStr ''factory_1'')
        (JStr ''Fire_Control'') initial_world) \<noteq> [] \<and>
   open_alerts 1 (JStr ''Fire_Control'') ''FIRE_DETECTED''
     (check_and_create_alerts demo_lib [(''fire_status'', JStr ''FIRE_SAFE'')]
        (JStr ''factory_1'') (JStr ''Fire_Control'') initial_world) \<noteq> [] \<and>
   open_alerts 1 (JStr ''Fire_Control'') ''FIRE_DETECTED''
     (check_and_create_alerts demo_lib [(''fire_status'', JStr ''SAFE'')] (JStr ''factory_1'')
        (JStr ''Fire_Control'') initial_world) = []"
proof -
  have k: "factory_lookup (JStr ''factory_1'') = Inr (Some 1)"
    by (simp add: factory_lookup_def str_key_get_def)
  have h: "faults initial_world = []" by (simp add: initial_world_def)
  have c1: "(let status = upper (py_str demo_lib
                (dict_get_or [(''fire_status'', JStr ''FIRE_1'')] ''fire_status'' (JStr [])))
             in contains ''FIRE'' status \<and> status \<noteq> ''SAFE'')"
    by code_simp
  have c2: "(let status = upper (py_str demo_lib
                (dict_get_or [(''fire_status'', JStr ''FIRE_SAFE'')] ''fire_status'' (JStr [])))
             in contains ''FIRE'' status \<and> status \<noteq> ''SAFE'')"
    by code_simp
  have c3: "\<not> (let status = upper (py_str demo_lib
                (dict_get_or [(''fire_status'', JStr ''SAFE'')] ''fire_status'' (JStr [])))
             in contains ''FIRE'' status \<and> status \<noteq> ''SAFE'')"
    by code_simp
  from fire_detected_rule [OF k h, of demo_lib "[(''fire_status'', JStr ''FIRE_1'')]"
      "JStr ''Fire_Control''"] c1
  have a1: "open_alerts 1 (JStr ''Fire_Control'') ''FIRE_DETECTED''
     (check_and_create_alerts demo_lib [(''fire_status'', JStr ''FIRE_1'')] (JStr ''factory_1'')
        (JStr ''Fire_Control'') initial_world) \<noteq> []"
    by blast
  from fire_detected_rule [OF k h, of demo_lib "[(''fire_status'', JStr ''FIRE_SAFE'')]"
      "JStr ''Fire_Control''"] c2
  have a2: "open_alerts 1 (JStr ''Fire_Control'') ''FIRE_DETECTED''
     (check_and_create_alerts demo_lib [(''fire_status'', JStr ''FIRE_SAFE'')]
        (JStr ''factory_1'') (JStr ''Fire_Control'') initial_world) \<noteq> []"
    by blast
  from fire_detected_rule [OF k h, of demo_lib "[(''fire_status'', JStr ''SAFE'')]"
      "JStr ''Fire_Control''"] c3
  have a3: "open_alerts 1 (JStr ''Fire_Control'') ''FIRE_DETECTED''
     (check_and_create_alerts demo_lib [(''fire_status'', JStr ''SAFE'')] (JStr ''factory_1'')
        (JStr ''Fire_Control'') initial_world) = []"
    by blast
  from k h a1 a2 a3 show ?thesis by blast
qed

section \<open>The temperature rules\<close>

lemma check_and_create_alerts_temperature_rows:
  assumes "factory_lookup factory = Inr (Some pk)" and "faults w = []"
    and "temperature_rule L pk telemetry sysname (fire_rule L pk telemetry sysname w) = (r2, w2)"
    and "atype \<noteq> ''LOW_BATTERY''" and "atype \<noteq> ''UNAUTHORIZED_ACCESS''"
  shows "alerts_of_type atype (alerts (check_and_create_alerts L telemetry factory sysname w)) =
         alerts_of_type atype (alerts w2)"
proof -
  let ?w1 = "fire_rule L pk telemetry sysname w"
  from assms(1,2) obtain r2' w2' r3 w3 w4 where
    t: "temperature_rule L pk telemetry sysname ?w1 = (r2', w2')"
    and b: "battery_rule L pk telemetry sysname w2' = (r3, w3)"
    and a: "access_rule L pk telemetry sysname w3 = (None, w4)"
    and h: "faults w2' = []" "faults w3 = []"
    and res: "alerts (check_and_create_alerts L telemetry factory sysname w) =
           (if r2' \<noteq> None then alerts w2' else if r3 \<noteq> None then alerts w3 else alerts w4)"
    by (rule check_and_create_alerts_healthy [where L = L and telemetry = telemetry
          and sysname = sysname]) blast
  from t assms(3) have eq: "w2' = w2" by simp
  have f3: "alerts_of_type atype (alerts w3) = alerts_of_type atype (alerts w2')"
    by (rule battery_rule_frame [OF h(1) b assms(4)])
  have f4: "alerts_of_type atype (alerts w4) = alerts_of_type atype (alerts w3)"
    by (rule access_rule_frame [OF h(2) a assms(5)])
  from res f3 f4 eq show ?thesis by simp
qed

lemma temperature_thresholds_exclusive:
  "\<not> (float_less temperature_high x \<and> float_less x temperature_low)"
  by (cases x) (simp_all add: temperature_high_def temperature_low_def)

text \<open>
  C5. For every telemetry record, a known factory and a store whose calls succeed. When
  the temperature converts to the float \<open>x\<close> (a float converts to itself): above
  \<open>temperature_high\<close> the HIGH_TEMPERATURE rows are those of an Assert and the
  LOW_TEMPERATURE rows are untouched; below \<open>temperature_low\<close> the same with the two
  types exchanged; otherwise both are those of a Clear. The two conditions exclude each
  other. When the temperature is \<open>None\<close> (null or absent), the rows of both types are
  untouched.
\<close>

theorem temperature_rules:
  assumes "factory_lookup factory = Inr (Some pk)" and "faults w = []"
    and "w' = check_and_create_alerts L telemetry factory sysname w"
  shows
    "(read_temperature L (dict_get telemetry ''temperature'') = Inr (Some x) \<longrightarrow>
        (float_less temperature_high x \<longrightarrow>
           alerts_of_type ''HIGH_TEMPERATURE'' (alerts w') =
             assert_rows pk sysname ''HIGH_TEMPERATURE'' ''WARNING''
               (high_temperature_message L x (dict_get_or telemetry ''ac_state'' (JStr ''N/A'')))
               (clock w) (alerts_of_type ''HIGH_TEMPERATURE'' (alerts w)) \<and>
           alerts_of_type ''LOW_TEMPERATURE'' (alerts w') =
             alerts_of_type ''LOW_TEMPERATURE'' (alerts w) \<and>
           open_alerts pk sysname ''HIGH_TEMPERATURE'' w' \<noteq> []) \<and>
        (float_less x temperature_low \<longrightarrow>
           alerts_of_type ''LOW_TEMPERATURE'' (alerts w') =
             assert_rows pk sysname ''LOW_TEMPERATURE'' ''WARNING''
               (low_temperature_message L x
                  (dict_get_or telemetry ''furnace_state'' (JStr ''N/A'')))
               (clock w) (alerts_of_type ''LOW_TEMPERATURE'' (alerts w)) \<and>
           alerts_of_type ''HIGH_TEMPERATURE'' (alerts w') =
             alerts_of_type ''HIGH_TEMPERATURE'' (alerts w) \<and>
           open_alerts pk sysname ''LOW_TEMPERATURE'' w' \<noteq> []) \<and>
        (\<not> float_less temperature_high x \<and> \<not> float_less x temperature_low \<longrightarrow>
           alerts_of_type ''HIGH_TEMPERATURE'' (alerts w') =
             clear_rows pk sysname ''HIGH_TEMPERATURE'' (clock w)
               (alerts_of_type ''HIGH_TEMPERATURE'' (alerts w)) \<and>
           alerts_of_type ''LOW_TEMPERATURE'' (alerts w') =
             clear_rows pk sysname ''LOW_TEMPERATURE'' (clock w)
               (alerts_of_type ''LOW_TEMPERATURE'' (alerts w)) \<and>
           open_alerts pk sysname ''HIGH_TEMPERATURE'' w' = [] \<and>
           open_alerts pk sysname ''LOW_TEMPERATURE'' w' = [])) \<and>
     (read_temperature L (dict_get telemetry ''temperature'') = Inr None \<longrightarrow>
        alerts_of_type ''HIGH_TEMPERATURE'' (alerts w') =
          alerts_of_type ''HIGH_TEMPERATURE'' (alerts w) \<and>
        alerts_of_type ''LOW_TEMPERATURE'' (alerts w') =
          alerts_of_type ''LOW_TEMPERATURE'' (alerts w)) \<and>
     \<not> (float_less temperature_high x \<and> float_less x temperature_low) \<and>
     read_temperature L (JFloat x) = Inr (Some x) \<and>
     read_temperature L JNull = Inr None"
proof -
  let ?w1 = "fire_rule L pk telemetry sysname w"
  let ?H = "alerts_of_type ''HIGH_TEMPERATURE''"
  let ?Lo = "alerts_of_type ''LOW_TEMPERATURE''"
  obtain r2 w2 where t: "temperature_rule L pk telemetry sysname ?w1 = (r2, w2)"
    by (cases "temperature_rule L pk telemetry sysname ?w1")
  note h1 = fire_rule_healthy(1,2) [OF assms(2), of L pk telemetry sysname]
  have H1: "?H (alerts ?w1) = ?H (alerts w)"
    by (rule fire_rule_frame [OF assms(2)]) simp
  have L1: "?Lo (alerts ?w1) = ?Lo (alerts w)"
    by (rule fire_rule_frame [OF assms(2)]) simp
  have H': "?H (alerts w') = ?H (alerts w2)"
    unfolding assms(3)
    by (rule check_and_create_alerts_temperature_rows [OF assms(1,2) t]) simp_all
  have L': "?Lo (alerts w') = ?Lo (alerts w2)"
    unfolding assms(3)
    by (rule check_and_create_alerts_temperature_rows [OF assms(1,2) t]) simp_all
  note rows2 = temperature_rule_healthy(4) [OF h1(1) t]
  have some: "read_temperature L (dict_get telemetry ''temperature'') = Inr (Some x) \<longrightarrow>
        (float_less temperature_high x \<longrightarrow>
           ?H (alerts w') =
             assert_rows pk sysname ''HIGH_TEMPERATURE'' ''WARNING''
               (high_temperature_message L x (dict_get_or telemetry ''ac_state'' (JStr ''N/A'')))
               (clock w) (?H (alerts w)) \<and>
           ?Lo (alerts w') = ?Lo (alerts w)) \<and>
        (float_less x temperature_low \<longrightarrow>
           ?Lo (alerts w') =
             assert_rows pk sysname ''LOW_TEMPERATURE'' ''WARNING''
               (low_temperature_message L x
                  (dict_get_or telemetry ''furnace_state'' (JStr ''N/A'')))
               (clock w) (?Lo (alerts w)) \<and>
           ?H (alerts w') = ?H (alerts w)) \<and>
        (\<not> float_less temperature_high x \<and> \<not> float_less x temperature_low \<longrightarrow>
           ?H (alerts w') =
             clear_rows pk sysname ''HIGH_TEMPERATURE'' (clock w) (?H (alerts w)) \<and>
           ?Lo (alerts w') =
             clear_rows pk sysname ''LOW_TEMPERATURE'' (clock w) (?Lo (alerts w)))"
    using temperature_thresholds_exclusive [of x]
    by (auto simp: H' L' rows2 h1(2) H1 L1
        alerts_of_type_assert_rows_same alerts_of_type_assert_rows_other
        alerts_of_type_clear_rows_same alerts_of_type_clear_rows_other)
  have none: "read_temperature L (dict_get telemetry ''temperature'') = Inr None \<longrightarrow>
        ?H (alerts w') = ?H (alerts w) \<and> ?Lo (alerts w') = ?Lo (alerts w)"
    by (simp add: H' L' rows2 H1 L1)
  have conv: "read_temperature L (JFloat x) = Inr (Some x)" "read_temperature L JNull = Inr None"
    by (simp_all add: read_temperature_def)
  from some have opens:
    "read_temperature L (dict_get telemetry ''temperature'') = Inr (Some x) \<longrightarrow>
        (float_less temperature_high x \<longrightarrow> open_alerts pk sysname ''HIGH_TEMPERATURE'' w' \<noteq> [])
      \<and> (float_less x temperature_low \<longrightarrow> open_alerts pk sysname ''LOW_TEMPERATURE'' w' \<noteq> [])
      \<and> (\<not> float_less temperature_high x \<and> \<not> float_less x temperature_low \<longrightarrow>
           open_alerts pk sysname ''HIGH_TEMPERATURE'' w' = [] \<and>
           open_alerts pk sysname ''LOW_TEMPERATURE'' w' = [])"
    by (simp add: open_alerts_of_type open_assert_rows open_clear_rows)
  from some none conv opens temperature_thresholds_exclusive [of x] show ?thesis
    by blast
qed

theorem temperature_rules_witness:
  "factory_lookup (JStr ''factory_1'') = Inr (Some 1) \<and> faults initial_world = [] \<and>
   open_alerts 1 (JStr ''HVAC_System'') ''HIGH_TEMPERATURE''
     (check_and_create_alerts demo_lib
        [(''temperature'', JFloat (Finite 35)), (''ac_state'', JStr ''ON'')]
        (JStr ''factory_1'') (JStr ''HVAC_System'') initial_world) \<noteq> [] \<and>
   alerts_of_type ''LOW_TEMPERATURE'' (alerts
     (check_and_create_alerts demo_lib
        [(''temperature'', JFloat (Finite 35)), (''ac_state'', JStr ''ON'')]
        (JStr ''factory_1'') (JStr ''HVAC_System'') initial_world)) = [] \<and>
   open_alerts 1 (JStr ''HVAC_System'') ''HIGH_TEMPERATURE''
     (check_and_create_alerts demo_lib [(''temperature'', JFloat (Finite 20))]
        (JStr ''factory_1'') (JStr ''HVAC_System'') initial_world) = [] \<and>
   open_alerts 1 (JStr ''HVAC_System'') ''LOW_TEMPERATURE''
     (check_and_create_alerts demo_lib [(''temperature'', JFloat (Finite 20))]
        (JStr ''factory_1'') (JStr ''HVAC_System'') initial_world) = []"
proof -
  have k: "factory_lookup (JStr ''factory_1'') = Inr (Some 1)"
    by (simp add: factory_lookup_def str_key_get_def)
  have h: "faults initial_world = []" by (simp add: initial_world_def)
  have e: "alerts initial_world = []" by (simp add: initial_world_def)
  have r35: "read_temperature demo_lib
      (dict_get [(''temperature'', JFloat (Finite 35)), (''ac_state'', JStr ''ON'')]
         ''temperature'') = Inr (Some (Finite 35))"
    by (simp add: read_temperature_def dict_get_def)
  have r20: "read_temperature demo_lib
      (dict_get [(''temperature'', JFloat (Finite 20))] ''temperature'') = Inr (Some (Finite 20))"
    by (simp add: read_temperature_def dict_get_def)
  have c35: "float_less temperature_high (Finite 35)"
    by (simp add: temperature_high_def)
  have c20: "\<not> float_less temperature_high (Finite 20) \<and> \<not> float_less (Finite 20) temperature_low"
    by (simp add: temperature_high_def temperature_low_def)
  from temperature_rules [OF k h refl, where x = "Finite 35" and L = demo_lib
      and telemetry = "[(''temperature'', JFloat (Finite 35)), (''ac_state'', JStr ''ON'')]"
      and sysname = "JStr ''HVAC_System''"] r35 c35
  have a1: "open_alerts 1 (JStr ''HVAC_System'') ''HIGH_TEMPERATURE''
     (check_and_create_alerts demo_lib
        [(''temperature'', JFloat (Finite 35)), (''ac_state'', JStr ''ON'')]
        (JStr ''factory_1'') (JStr ''HVAC_System'') initial_world) \<noteq> []"
    and a2: "alerts_of_type ''LOW_TEMPERATURE'' (alerts
     (check_and_create_alerts demo_lib
        [(''temperature'', JFloat (Finite 35)), (''ac_state'', JStr ''ON'')]
        (JStr ''factory_1'') (JStr ''HVAC_System'') initial_world)) =
      alerts_of_type ''LOW_TEMPERATURE'' (alerts initial_world)"
    by blast+
  from temperature_rules [OF k h refl, where x = "Finite 20" and L = demo_lib
      and telemetry = "[(''temperature'', JFloat (Finite 20))]"
      and sysname = "JStr ''HVAC_System''"] r20 c20
  have a3: "open_alerts 1 (JStr ''HVAC_System'') ''HIGH_TEMPERATURE''
     (check_and_create_alerts demo_lib [(''temperature'', JFloat (Finite 20))]
        (JStr ''factory_1'') (JStr ''HVAC_System'') initial_world) = []"
    and a4: "open_alerts 1 (JStr ''HVAC_System'') ''LOW_TEMPERATURE''
     (check_and_create_alerts demo_lib [(''temperature'', JFloat (Finite 20))]
        (JStr ''factory_1'') (JStr ''HVAC_System'') initial_world) = []"
    by blast+
  from a2 e have a2': "alerts_of_type ''LOW_TEMPERATURE'' (alerts
     (check_and_create_alerts demo_lib
        [(''temperature'', JFloat (Finite 35)), (''ac_state'', JStr ''ON'')]
        (JStr ''factory_1'') (JStr ''HVAC_System'') initial_world)) = []"
    by (simp add: alerts_of_type_def)
  from k h a1 a2' a3 a4 show ?thesis by blast
qed

section \<open>The battery rule\<close>

lemma temperature_rule_completes:
  assumes "temperature_rule L pk telemetry sysname w = (r, w')"
  shows "r = None \<longleftrightarrow> temperature_block_completes L telemetry"
  using assms
  by (auto simp: temperature_rule_def temperature_block_completes_def
      split: sum.splits option.splits if_splits)

lemma check_and_create_alerts_battery_rows:
  assumes "factory_lookup factory = Inr (Some pk)" and "faults w = []"
    and "temperature_block_completes L telemetry"
    and "temperature_rule L pk telemetry sysname (fire_rule L pk telemetry sysname w) = (r2, w2)"
    and "battery_rule L pk telemetry sysname w2 = (r3, w3)"
    and "atype \<noteq> ''UNAUTHORIZED_ACCESS''"
  shows "alerts_of_type atype (alerts (check_and_create_alerts L telemetry factory sysname w)) =
         alerts_of_type atype (alerts w3)"
proof -
  let ?w1 = "fire_rule L pk telemetry sysname w"
  from assms(1,2) obtain r2' w2' r3' w3' w4 where
    t: "temperature_rule L pk telemetry sysname ?w1 = (r2', w2')"
    and b: "battery_rule L pk telemetry sysname w2' = (r3', w3')"
    and a: "access_rule L pk telemetry sysname w3' = (None, w4)"
    and h: "faults w2' = []" "faults w3' = []"
    and res: "alerts (check_and_create_alerts L telemetry factory sysname w) =
           (if r2' \<noteq> None then alerts w2' else if r3' \<noteq> None then alerts w3' else alerts w4)"
    by (rule check_and_create_alerts_healthy [where L = L and telemetry = telemetry
          and sysname = sysname]) blast
  from t assms(4) have eq2: "w2' = w2" "r2' = r2" by simp_all
  with b assms(5) have eq3: "w3' = w3" by simp
  from temperature_rule_completes [OF assms(4)] assms(3) have r2: "r2 = None" by simp
  have f4: "alerts_of_type atype (alerts w4) = alerts_of_type atype (alerts w3')"
    by (rule access_rule_frame [OF h(2) a assms(6)])
  from res f4 eq2 eq3 r2 show ?thesis by simp
qed

text \<open>
  The battery rule where no exception leaves its block. For every telemetry record whose
  temperature block completes, a known factory and
  a store whose calls succeed, with \<open>b\<close> the battery level of the record. When \<open>b\<close> is
  truthy and below \<open>battery_low\<close> (and its format \<open>level\<close> exists), the LOW_BATTERY rows
  are those of an Assert with severity WARNING; when \<open>b\<close> is truthy and not below the
  threshold, those of a Clear; when \<open>b\<close> is not truthy the rows are untouched: neither
  asserted nor cleared. The levels \<open>0\<close> and \<open>0.0\<close> are not truthy, although they are
  below the threshold; a float level \<open>q\<close> is truthy when \<open>q \<noteq> 0\<close>, is compared by
  \<open>q < 15\<close> and always has a format. The rows are untouched as well when the comparison
  or the format raises.
\<close>

theorem low_battery_rule:
  assumes "factory_lookup factory = Inr (Some pk)" and "faults w = []"
    and "temperature_block_completes L telemetry"
    and "w' = check_and_create_alerts L telemetry factory sysname w"
    and "b = dict_get telemetry ''battery_level''"
  shows
    "(truthy b \<and> less_float b battery_low = Inr True \<and> format_number L b = Inr level \<longrightarrow>
        alerts_of_type ''LOW_BATTERY'' (alerts w') =
          assert_rows pk sysname ''LOW_BATTERY'' ''WARNING''
            (battery_message L level (dict_get_or telemetry ''led_brightness'' (JStr ''N/A'')))
            (clock w) (alerts_of_type ''LOW_BATTERY'' (alerts w)) \<and>
        open_alerts pk sysname ''LOW_BATTERY'' w' \<noteq> []) \<and>
     (truthy b \<and> less_float b battery_low = Inr False \<longrightarrow>
        alerts_of_type ''LOW_BATTERY'' (alerts w') =
          clear_rows pk sysname ''LOW_BATTERY'' (clock w)
            (alerts_of_type ''LOW_BATTERY'' (alerts w)) \<and>
        open_alerts pk sysname ''LOW_BATTERY'' w' = []) \<and>
     (\<not> truthy b \<longrightarrow>
        alerts_of_type ''LOW_BATTERY'' (alerts w') =
          alerts_of_type ''LOW_BATTERY'' (alerts w)) \<and>
     (truthy b \<and> (less_float b battery_low = Inl e \<or>
         less_float b battery_low = Inr True \<and> format_number L b = Inl e) \<longrightarrow>
        alerts_of_type ''LOW_BATTERY'' (alerts w') =
          alerts_of_type ''LOW_BATTERY'' (alerts w)) \<and>
     \<not> truthy (JInt 0) \<and> \<not> truthy (JFloat (Finite 0)) \<and> \<not> truthy JNull \<and>
     less_float (JInt 0) battery_low = Inr True \<and>
     less_float (JFloat (Finite 0)) battery_low = Inr True \<and>
     truthy (JFloat (Finite q)) = (q \<noteq> 0) \<and>
     less_float (JFloat (Finite q)) battery_low = Inr (q < 15) \<and>
     format_number L (JFloat (Finite q)) = Inr (format_1f L (Finite q))"
proof -
  let ?w1 = "fire_rule L pk telemetry sysname w"
  let ?B = "alerts_of_type ''LOW_BATTERY''"
  obtain r2 w2 where t: "temperature_rule L pk telemetry sysname ?w1 = (r2, w2)"
    by (cases "temperature_rule L pk telemetry sysname ?w1")
  obtain r3 w3 where bt: "battery_rule L pk telemetry sysname w2 = (r3, w3)"
    by (cases "battery_rule L pk telemetry sysname w2")
  note h1 = fire_rule_healthy(1,2) [OF assms(2), of L pk telemetry sysname]
  note h2 = temperature_rule_healthy(1,2) [OF h1(1) t]
  have B1: "?B (alerts ?w1) = ?B (alerts w)"
    by (rule fire_rule_frame [OF assms(2)]) simp
  have B2: "?B (alerts w2) = ?B (alerts ?w1)"
    by (rule temperature_rule_frame [OF h1(1) t]) simp_all
  have B': "?B (alerts w') = ?B (alerts w3)"
    unfolding assms(4)
    by (rule check_and_create_alerts_battery_rows [OF assms(1,2,3) t bt]) simp
  note rows3 = battery_rule_rows(1) [OF h2(1) bt]
  have clk: "clock w2 = clock w" using h1(2) h2(2) by simp
  have assert: "truthy b \<and> less_float b battery_low = Inr True \<and> format_number L b = Inr level
      \<longrightarrow> ?B (alerts w') =
          assert_rows pk sysname ''LOW_BATTERY'' ''WARNING''
            (battery_message L level (dict_get_or telemetry ''led_brightness'' (JStr ''N/A'')))
            (clock w) (?B (alerts w))"
    by (simp add: B' rows3 assms(5) [symmetric] clk alerts_of_type_assert_rows_same B1 B2)
  have clear: "truthy b \<and> less_float b battery_low = Inr False
      \<longrightarrow> ?B (alerts w') = clear_rows pk sysname ''LOW_BATTERY'' (clock w) (?B (alerts w))"
    by (simp add: B' rows3 assms(5) [symmetric] clk alerts_of_type_clear_rows_same B1 B2)
  have skip: "\<not> truthy b \<longrightarrow> ?B (alerts w') = ?B (alerts w)"
    by (simp add: B' rows3 assms(5) [symmetric] B1 B2)
  have raise: "truthy b \<and> (less_float b battery_low = Inl e \<or>
         less_float b battery_low = Inr True \<and> format_number L b = Inl e)
      \<longrightarrow> ?B (alerts w') = ?B (alerts w)"
    by (auto simp: B' rows3 assms(5) [symmetric] B1 B2)
  from assert have open1:
    "truthy b \<and> less_float b battery_low = Inr True \<and> format_number L b = Inr level
      \<longrightarrow> open_alerts pk sysname ''LOW_BATTERY'' w' \<noteq> []"
    by (simp add: open_alerts_of_type open_assert_rows)
  from clear have open2: "truthy b \<and> less_float b battery_low = Inr False
      \<longrightarrow> open_alerts pk sysname ''LOW_BATTERY'' w' = []"
    by (simp add: open_alerts_of_type open_clear_rows)
  have facts: "\<not> truthy (JInt 0)" "\<not> truthy (JFloat (Finite 0))" "\<not> truthy JNull"
    "less_float (JInt 0) battery_low = Inr True"
    "less_float (JFloat (Finite 0)) battery_low = Inr True"
    "truthy (JFloat (Finite q)) = (q \<noteq> 0)"
    "less_float (JFloat (Finite q)) battery_low = Inr (q < 15)"
    "format_number L (JFloat (Finite q)) = Inr (format_1f L (Finite q))"
    by (simp_all add: battery_low_def)
  from assert clear skip raise open1 open2 facts show ?thesis by blast
qed

theorem low_battery_rule_witness:
  "factory_lookup (JStr ''factory_2'') = Inr (Some 2) \<and> faults initial_world = [] \<and>
   temperature_block_completes demo_lib [(''battery_level'', JInt 0)] \<and>
   alerts_of_type ''LOW_BATTERY'' (alerts
     (check_and_create_alerts demo_lib [(''battery_level'', JInt 0)] (JStr ''factory_2'')
        (JStr ''Battery_System'') initial_world)) = [] \<and>
   open_alerts 2 (JStr ''Battery_System'') ''LOW_BATTERY''
     (check_and_create_alerts demo_lib [(''battery_level'', JFloat (Finite 9))]
        (JStr ''factory_2'') (JStr ''Battery_System'') initial_world) \<noteq> [] \<and>
   open_alerts 2 (JStr ''Battery_System'') ''LOW_BATTERY''
     (check_and_create_alerts demo_lib [(''battery_level'', JInt 80)] (JStr ''factory_2'')
        (JStr ''Battery_System'') initial_world) = []"
proof -
  have k: "factory_lookup (JStr ''factory_2'') = Inr (Some 2)"
    by (simp add: factory_lookup_def str_key_get_def)
  have h: "faults initial_world = []" by (simp add: initial_world_def)
  have e: "alerts initial_world = []" by (simp add: initial_world_def)
  have t0: "temperature_block_completes demo_lib [(''battery_level'', JInt 0)]"
    and t9: "temperature_block_completes demo_lib [(''battery_level'', JFloat (Finite 9))]"
    and t80: "temperature_block_completes demo_lib [(''battery_level'', JInt 80)]"
    by (simp_all add: temperature_block_completes_def read_temperature_def dict_get_def)
  have b0: "\<not> truthy (dict_get [(''battery_level'', JInt 0)] ''battery_level'')"
    by (simp add: dict_get_def)
  have b9: "truthy (dict_get [(''battery_level'', JFloat (Finite 9))] ''battery_level'') \<and>
      less_float (dict_get [(''battery_level'', JFloat (Finite 9))] ''battery_level'')
        battery_low = Inr True \<and>
      format_number demo_lib (dict_get [(''battery_level'', JFloat (Finite 9))] ''battery_level'')
        = Inr (format_1f demo_lib (Finite 9))"
    by (simp add: dict_get_def battery_low_def)
  have b80: "truthy (dict_get [(''battery_level'', JInt 80)] ''battery_level'') \<and>
      less_float (dict_get [(''battery_level'', JInt 80)] ''battery_level'') battery_low
        = Inr False"
    by (simp add: dict_get_def battery_low_def)
  from low_battery_rule [OF k h t0 refl refl, where sysname = "JStr ''Battery_System''"] b0
  have "alerts_of_type ''LOW_BATTERY'' (alerts
     (check_and_create_alerts demo_lib [(''battery_level'', JInt 0)] (JStr ''factory_2'')
        (JStr ''Battery_System'') initial_world)) =
     alerts_of_type ''LOW_BATTERY'' (alerts initial_world)"
    by blast
  with e have a0: "alerts_of_type ''LOW_BATTERY'' (alerts
     (check_and_create_alerts demo_lib [(''battery_level'', JInt 0)] (JStr ''factory_2'')
        (JStr ''Battery_System'') initial_world)) = []"
    by (simp add: alerts_of_type_def)
  from low_battery_rule [OF k h t9 refl refl, where sysname = "JStr ''Battery_System''"
      and level = "format_1f demo_lib (Finite 9)"] b9
  have a9: "open_alerts 2 (JStr ''Battery_System'') ''LOW_BATTERY''
     (check_and_create_alerts demo_lib [(''battery_level'', JFloat (Finite 9))]
        (JStr ''factory_2'') (JStr ''Battery_System'') initial_world) \<noteq> []"
    by blast
  from low_battery_rule [OF k h t80 refl refl, where sysname = "JStr ''Battery_System''"] b80
  have a80: "open_alerts 2 (JStr ''Battery_System'') ''LOW_BATTERY''
     (check_and_create_alerts demo_lib [(''battery_level'', JInt 80)] (JStr ''factory_2'')
        (JStr ''Battery_System'') initial_world) = []"
    by blast
  from k h t0 a0 a9 a80 show ?thesis by blast
qed

section \<open>Unauthorized access\<close>

lemma check_and_create_alerts_faults:
  assumes "faults w = []"
  shows "faults (check_and_create_alerts L telemetry factory sysname w) = []"
proof (cases "factory_lookup factory")
  case (Inl e)
  with assms show ?thesis by (simp add: check_and_create_alerts_def)
next
  case (Inr found)
  show ?thesis
  proof (cases found)
    case None
    with Inr assms show ?thesis by (simp add: check_and_create_alerts_def)
  next
    case (Some pk)
    let ?w1 = "fire_rule L pk telemetry sysname w"
    obtain r2 w2 where t: "temperature_rule L pk telemetry sysname ?w1 = (r2, w2)"
      by (cases "temperature_rule L pk telemetry sysname ?w1")
    obtain r3 w3 where b: "battery_rule L pk telemetry sysname w2 = (r3, w3)"
      by (cases "battery_rule L pk telemetry sysname w2")
    obtain r4 w4 where a: "access_rule L pk telemetry sysname w3 = (r4, w4)"
      by (cases "access_rule L pk telemetry sysname w3")
    note h1 = fire_rule_healthy(1) [OF assms, of L pk telemetry sysname]
    note h2 = temperature_rule_healthy(1) [OF h1 t]
    note h3 = battery_rule_healthy(1) [OF h2 b]
    note h4 = access_rule_healthy(1) [OF h3 a]
    from Inr Some assms t b a h2 h3 h4 show ?thesis
      by (auto simp: check_and_create_alerts_def Let_def split: option.splits)
  qed
qed

lemma check_and_create_alerts_access_rows:
  assumes "factory_lookup factory = Inr (Some pk)" and "faults w = []"
    and "temperature_block_completes L telemetry" and "battery_block_completes L telemetry"
  shows "\<exists>rows. alerts_of_type ''UNAUTHORIZED_ACCESS'' rows =
             alerts_of_type ''UNAUTHORIZED_ACCESS'' (alerts w) \<and>
           alerts (check_and_create_alerts L telemetry factory sysname w) =
             (if dict_get telemetry ''access_log'' = JStr ''DENIED''
              then rows @ [new_alert pk ''UNAUTHORIZED_ACCESS'' ''WARNING''
                     (access_message L
                        (dict_get_or telemetry ''rfid_last_card'' (JStr ''Unknown'')))
                     sysname (clock w)]
              else rows)"
proof -
  let ?w1 = "fire_rule L pk telemetry sysname w"
  let ?U = "alerts_of_type ''UNAUTHORIZED_ACCESS''"
  from assms(1,2) obtain r2 w2 r3 w3 w4 where
    t: "temperature_rule L pk telemetry sysname ?w1 = (r2, w2)"
    and b: "battery_rule L pk telemetry sysname w2 = (r3, w3)"
    and a: "access_rule L pk telemetry sysname w3 = (None, w4)"
    and h: "faults w2 = []" "faults w3 = []"
    and clk: "clock w3 = clock w"
    and res: "alerts (check_and_create_alerts L telemetry factory sysname w) =
           (if r2 \<noteq> None then alerts w2 else if r3 \<noteq> None then alerts w3 else alerts w4)"
    by (rule check_and_create_alerts_healthy [where L = L and telemetry = telemetry
          and sysname = sysname]) blast
  have h1: "faults ?w1 = []" using assms(2) by (rule fire_rule_healthy(1))
  from temperature_rule_completes [OF t] assms(3) have r2: "r2 = None" by simp
  from battery_rule_rows(2) [OF h(1) b] assms(4) have r3: "r3 = None" by simp
  have U1: "?U (alerts ?w1) = ?U (alerts w)"
    by (rule fire_rule_frame [OF assms(2)]) simp
  have U2: "?U (alerts w2) = ?U (alerts ?w1)"
    by (rule temperature_rule_frame [OF h1 t]) simp_all
  have U3: "?U (alerts w3) = ?U (alerts w2)"
    by (rule battery_rule_frame [OF h(1) b]) simp
  from res r2 r3 access_rule_healthy(4) [OF h(2) a] clk
  have "alerts (check_and_create_alerts L telemetry factory sysname w) =
             (if dict_get telemetry ''access_log'' = JStr ''DENIED''
              then alerts w3 @ [new_alert pk ''UNAUTHORIZED_ACCESS'' ''WARNING''
                     (access_message L
                        (dict_get_or telemetry ''rfid_last_card'' (JStr ''Unknown'')))
                     sysname (clock w)]
              else alerts w3)"
    by simp
  moreover have "?U (alerts w3) = ?U (alerts w)" using U1 U2 U3 by simp
  ultimately show ?thesis by blast
qed

text \<open>
  C7. For every telemetry record whose temperature and battery blocks complete, a known
  factory and a store whose calls succeed. When the access log is \<open>DENIED\<close>, whatever
  alerts the table holds, a new open UNAUTHORIZED_ACCESS alert with severity WARNING is
  appended as the last row; the UNAUTHORIZED_ACCESS rows already there are unchanged, so
  open ones stay open. A second such event adds a second row: the tuple then has two more
  open alerts than before. When the access log is anything else, the UNAUTHORIZED_ACCESS
  rows are unchanged: nothing clears them.
\<close>

theorem unauthorized_access_rule:
  assumes "factory_lookup factory = Inr (Some pk)" and "faults w = []"
    and "temperature_block_completes L telemetry" and "battery_block_completes L telemetry"
    and "w' = check_and_create_alerts L telemetry factory sysname w"
    and "w'' = check_and_create_alerts L telemetry factory sysname (w'\<lparr>clock := later\<rparr>)"
    and "a = new_alert pk ''UNAUTHORIZED_ACCESS'' ''WARNING''
               (access_message L (dict_get_or telemetry ''rfid_last_card'' (JStr ''Unknown'')))
               sysname"
  shows
    "(dict_get telemetry ''access_log'' = JStr ''DENIED'' \<longrightarrow>
        alerts w' \<noteq> [] \<and> last (alerts w') = a (clock w) \<and>
        alerts_of_type ''UNAUTHORIZED_ACCESS'' (alerts w') =
          alerts_of_type ''UNAUTHORIZED_ACCESS'' (alerts w) @ [a (clock w)] \<and>
        open_alerts pk sysname ''UNAUTHORIZED_ACCESS'' w' =
          open_alerts pk sysname ''UNAUTHORIZED_ACCESS'' w @ [a (clock w)] \<and>
        alerts_of_type ''UNAUTHORIZED_ACCESS'' (alerts w'') =
          alerts_of_type ''UNAUTHORIZED_ACCESS'' (alerts w) @ [a (clock w), a later] \<and>
        open_alerts pk sysname ''UNAUTHORIZED_ACCESS'' w'' =
          open_alerts pk sysname ''UNAUTHORIZED_ACCESS'' w @ [a (clock w), a later] \<and>
        length (open_alerts pk sysname ''UNAUTHORIZED_ACCESS'' w'') =
          length (open_alerts pk sysname ''UNAUTHORIZED_ACCESS'' w) + 2) \<and>
     (dict_get telemetry ''access_log'' \<noteq> JStr ''DENIED'' \<longrightarrow>
        alerts_of_type ''UNAUTHORIZED_ACCESS'' (alerts w') =
          alerts_of_type ''UNAUTHORIZED_ACCESS'' (alerts w))"
proof -
  let ?U = "alerts_of_type ''UNAUTHORIZED_ACCESS''"
  let ?denied = "dict_get telemetry ''access_log'' = JStr ''DENIED''"
  from check_and_create_alerts_access_rows [OF assms(1,2,3,4), of sysname]
  obtain rows where rows: "?U rows = ?U (alerts w)"
    and res: "alerts w' = (if ?denied then rows @ [a (clock w)] else rows)"
    unfolding assms(5,7) by blast
  have h': "faults (w'\<lparr>clock := later\<rparr>) = []"
    unfolding assms(5) using check_and_create_alerts_faults [OF assms(2)] by simp
  from check_and_create_alerts_access_rows [OF assms(1) h' assms(3,4), of sysname]
  obtain rows' where rows': "?U rows' = ?U (alerts w')"
    and res': "alerts w'' = (if ?denied then rows' @ [a later] else rows')"
    unfolding assms(6,7) by auto
  have type_a: "\<And>now. ?U [a now] = [a now]"
    by (simp add: assms(7))
  have open_a: "\<And>now. is_open_for pk sysname ''UNAUTHORIZED_ACCESS'' (a now)"
    by (simp add: assms(7))
  have U': "?denied \<longrightarrow> ?U (alerts w') = ?U (alerts w) @ [a (clock w)]"
    using res rows type_a by simp
  have U'': "?denied \<longrightarrow> ?U (alerts w'') = ?U (alerts w) @ [a (clock w), a later]"
    using res' rows' U' type_a by simp
  have O': "?denied \<longrightarrow> open_alerts pk sysname ''UNAUTHORIZED_ACCESS'' w' =
      open_alerts pk sysname ''UNAUTHORIZED_ACCESS'' w @ [a (clock w)]"
    using U' open_a by (simp add: open_alerts_of_type)
  have O'': "?denied \<longrightarrow> open_alerts pk sysname ''UNAUTHORIZED_ACCESS'' w'' =
      open_alerts pk sysname ''UNAUTHORIZED_ACCESS'' w @ [a (clock w), a later]"
    using U'' open_a by (simp add: open_alerts_of_type)
  have last: "?denied \<longrightarrow> alerts w' \<noteq> [] \<and> last (alerts w') = a (clock w)"
    using res by simp
  have other: "\<not> ?denied \<longrightarrow> ?U (alerts w') = ?U (alerts w)"
    using res rows by simp
  from U' U'' O' O'' last other show ?thesis by simp
qed

theorem unauthorized_access_rule_witness:
  "factory_lookup (JStr ''factory_1'') = Inr (Some 1) \<and> faults initial_world = [] \<and>
   temperature_block_completes demo_lib
     [(''rfid_last_card'', JStr ''A1B2''), (''access_log'', JStr ''DENIED'')] \<and>
   battery_block_completes demo_lib
     [(''rfid_last_card'', JStr ''A1B2''), (''access_log'', JStr ''DENIED'')] \<and>
   length (open_alerts 1 (JStr ''Safe_Room'') ''UNAUTHORIZED_ACCESS''
     (check_and_create_alerts demo_lib
        [(''rfid_last_card'', JStr ''A1B2''), (''access_log'', JStr ''DENIED'')]
        (JStr ''factory_1'') (JStr ''Safe_Room'')
        ((check_and_create_alerts demo_lib
            [(''rfid_last_card'', JStr ''A1B2''), (''access_log'', JStr ''DENIED'')]
            (JStr ''factory_1'') (JStr ''Safe_Room'') initial_world)\<lparr>clock := 1\<rparr>))) = 2"
proof -
  let ?tel = "[(''rfid_last_card'', JStr ''A1B2''), (''access_log'', JStr ''DENIED'')]"
  have k: "factory_lookup (JStr ''factory_1'') = Inr (Some 1)"
    by (simp add: factory_lookup_def str_key_get_def)
  have h: "faults initial_world = []" by (simp add: initial_world_def)
  have tc: "temperature_block_completes demo_lib ?tel"
    by (simp add: temperature_block_completes_def read_temperature_def dict_get_def)
  have bc: "battery_block_completes demo_lib ?tel"
    by (simp add: battery_block_completes_def dict_get_def)
  have d: "dict_get ?tel ''access_log'' = JStr ''DENIED''"
    by (simp add: dict_get_def)
  have o: "open_alerts 1 (JStr ''Safe_Room'') ''UNAUTHORIZED_ACCESS'' initial_world = []"
    by (simp add: open_alerts_def initial_world_def)
  from unauthorized_access_rule [OF k h tc bc refl refl refl, where sysname = "JStr ''Safe_Room''"
      and later = 1] d
  have "length (open_alerts 1 (JStr ''Safe_Room'') ''UNAUTHORIZED_ACCESS''
     (check_and_create_alerts demo_lib ?tel (JStr ''factory_1'') (JStr ''Safe_Room'')
        ((check_and_create_alerts demo_lib ?tel (JStr ''factory_1'') (JStr ''Safe_Room'')
            initial_world)\<lparr>clock := 1\<rparr>))) =
     length (open_alerts 1 (JStr ''Safe_Room'') ''UNAUTHORIZED_ACCESS'' initial_world) + 2"
    by blast
  with o k h tc bc show ?thesis by simp
qed

section \<open>The mapper\<close>

lemma float_of_int_error: "float_of_int n = Inl e \<Longrightarrow> e = OverflowError"
  by (simp add: float_of_int_def Let_def split: if_splits)

lemma py_float_error:
  "py_float L v = Inl e \<Longrightarrow>
     e = ValueError \<or> e = TypeError \<or> (e = OverflowError \<and> (\<exists>n. v = JInt n))"
  by (cases v) (auto split: option.splits dest: float_of_int_error)

text \<open>The only exception that leaves the mapper is the OverflowError of \<^verbatim>\<open>float\<close> on
  an integer temperature of an HVAC payload; every recognized subsystem gives a
  non-empty record, every other identifier the empty one.\<close>

lemma map_telemetry_data_raises:
  assumes "map_telemetry_data L pt_data sysname = Inl e"
  shows "sysname = JStr ''HVAC_System'' \<and> e = OverflowError \<and>
         (\<exists>n. dict_get pt_data ''temperature'' = JInt n \<and> float_of_int n = Inl OverflowError)"
proof -
  from assms have hvac: "sysname = JStr ''HVAC_System''"
    by (auto simp: map_telemetry_data_def Let_def split: if_splits sum.splits)
  with assms have err: "py_float L (dict_get pt_data ''temperature'') = Inl e"
    and other: "e \<noteq> ValueError" "e \<noteq> TypeError"
    by (auto simp: map_telemetry_data_def Let_def split: if_splits sum.splits)
  from py_float_error [OF err] other obtain n where
    "e = OverflowError" "dict_get pt_data ''temperature'' = JInt n"
    by auto
  with err hvac show ?thesis by simp
qed

lemma map_telemetry_data_nonempty:
  assumes "map_telemetry_data L pt_data sysname = Inr telemetry" and "telemetry \<noteq> []"
  shows "\<exists>name. sysname = JStr name"
  using assms by (auto simp: map_telemetry_data_def Let_def split: if_splits)

lemma map_telemetry_data_unknown:
  assumes "sysname \<notin> JStr ` {''Fire_Control'', ''Conveyor_Belt'', ''Weight_System'',
     ''Garage_Door'', ''Battery_System'', ''HVAC_System'', ''Safe_Room''}"
  shows "map_telemetry_data L pt_data sysname = Inr []"
  using assms by (simp add: map_telemetry_data_def)

text \<open>Apart from that exception the mapper does what its table says: the fields of a
  record are among the canonical ones of its subsystem, and the HVAC temperature is the
  converted float, or \<open>None\<close> when the raw value is absent or does not convert.\<close>

lemma map_telemetry_data_fields:
  assumes "map_telemetry_data L pt_data sysname = Inr telemetry"
  shows "set (map fst telemetry) \<subseteq>
     (if sysname = JStr ''Fire_Control''
        then {''fire_sensor_val'', ''fire_status'', ''siren_state'', ''sprinkler_state''}
      else if sysname = JStr ''Conveyor_Belt''
        then {''order_count'', ''conveyor_speed'', ''conveyor_status''}
      else if sysname = JStr ''Weight_System''
        then {''weight_grams'', ''weight_status'', ''servo_angle''}
      else if sysname = JStr ''Garage_Door'' then {''motion_detected'', ''garage_door''}
      else if sysname = JStr ''Battery_System'' then {''battery_level'', ''led_brightness''}
      else if sysname = JStr ''HVAC_System''
        then {''temperature'', ''ac_state'', ''ac2_state'', ''furnace_state''}
      else if sysname = JStr ''Safe_Room''
        then {''rfid_last_card'', ''access_log'', ''safe_door'', ''webcam_status''}
      else {})"
  using assms
  by (auto simp: map_telemetry_data_def Let_def split: if_splits sum.splits)

lemma hvac_temperature_field:
  assumes "map_telemetry_data L pt_data (JStr ''HVAC_System'') = Inr telemetry"
  shows "dict_get telemetry ''temperature'' =
     (case py_float L (dict_get pt_data ''temperature'') of
        Inr f \<Rightarrow> JFloat f
      | Inl e \<Rightarrow> JNull)"
  using assms
  by (auto simp: map_telemetry_data_def Let_def dict_get_def split: if_splits sum.splits)

lemma mapper_examples:
  "map_telemetry_data L [(''motion_status'', JStr ''DETECTED'')] (JStr ''Garage_Door'') =
     Inr [(''motion_detected'', JBool True), (''garage_door'', JNull)]"
  "map_telemetry_data L [(''motion_status'', JStr ''CLEAR'')] (JStr ''Garage_Door'') =
     Inr [(''motion_detected'', JBool False), (''garage_door'', JNull)]"
  "map_telemetry_data L [(''motion_status'', JInt 1)] (JStr ''Garage_Door'') =
     Inr [(''motion_detected'', JBool True), (''garage_door'', JNull)]"
  "float_of_str L ''not-a-number'' = None \<Longrightarrow>
   map_telemetry_data L [(''temperature'', JStr ''not-a-number'')] (JStr ''HVAC_System'') =
     Inr [(''temperature'', JNull), (''ac_state'', JNull), (''ac2_state'', JNull),
          (''furnace_state'', JNull)]"
  by (simp_all add: map_telemetry_data_def dict_get_def)

text \<open>An integer of magnitude \<open>2^1024\<close> or more is beyond the doubles: it rounds to a
  value of at least that magnitude, and \<^verbatim>\<open>float\<close> raises.\<close>

lemma round_double_large:
  assumes "2 ^ k \<le> \<bar>n\<bar>" and "53 \<le> k"
  shows "2 ^ k \<le> \<bar>round_double n\<bar>"
proof -
  define a where "a = \<bar>n\<bar>"
  have a_pos: "0 < a" using assms(1) unfolding a_def
    by (smt (verit) zero_less_power)
  from bitlen_bounds [OF a_pos]
  have lo: "2 ^ nat (bitlen a - 1) \<le> a" and hi: "a < 2 ^ nat (bitlen a)" by simp_all
  from assms(1) have "2 ^ k \<le> a" unfolding a_def .
  from this hi have "(2::int) ^ k < 2 ^ nat (bitlen a)" by (rule le_less_trans)
  then have k_lt: "k < nat (bitlen a)" by simp
  define e where "e = nat (bitlen a - 53)"
  from k_lt assms(2) have e_pos: "0 < bitlen a - 53" by linarith
  have exp: "nat (bitlen a - 1) = e + 52" using e_pos unfolding e_def by linarith
  have k_le: "k \<le> e + 52" using k_lt exp by linarith
  define q where "q = a div 2 ^ e"
  define q' where "q' = (if 2 ^ nat (bitlen a - 53 - 1) < a mod 2 ^ e \<or>
      (a mod 2 ^ e = 2 ^ nat (bitlen a - 53 - 1) \<and> odd q) then q + 1 else q)"
  have "(2::int) ^ 52 * 2 ^ e \<le> a" using lo exp by (simp add: power_add mult.commute)
  then have "(2 ^ 52 * 2 ^ e) div 2 ^ e \<le> a div (2::int) ^ e"
    by (intro zdiv_mono1) simp_all
  then have q_ge: "2 ^ 52 \<le> q" unfolding q_def by simp
  have q'_ge: "q \<le> q'" unfolding q'_def by simp
  have "(2::int) ^ k \<le> 2 ^ (e + 52)" using k_le by (intro power_increasing) simp_all
  also have "\<dots> = 2 ^ 52 * 2 ^ e" by (simp add: power_add mult.commute)
  also have "\<dots> \<le> q' * 2 ^ e" using q_ge q'_ge by (intro mult_right_mono) simp_all
  finally have big: "2 ^ k \<le> q' * 2 ^ e" .
  have n0: "n \<noteq> 0" using a_pos unfolding a_def by simp
  have q'_pos: "0 \<le> q'" using q_ge q'_ge by simp
  have "round_double n = sgn n * q' * 2 ^ e"
    using e_pos unfolding round_double_def Let_def a_def [symmetric] e_def [symmetric]
      q_def [symmetric] q'_def by simp
  then have "\<bar>round_double n\<bar> = q' * 2 ^ e"
    using n0 q'_pos by (simp add: abs_mult abs_sgn_eq)
  with big show ?thesis by simp
qed

lemma float_of_int_overflow:
  "2 ^ 1024 \<le> \<bar>n\<bar> \<Longrightarrow> float_of_int n = Inl OverflowError"
  using round_double_large [of 1024 n] by (simp add: float_of_int_def Let_def del: power_numeral)

lemma float_of_int_overflow_examples:
  "float_of_int (10 ^ 400) = Inl OverflowError"
  "float_of_int (- (2 ^ 1024)) = Inl OverflowError"
  by (rule float_of_int_overflow, simp)+

text \<open>
  C8. The HVAC branch guards \<^verbatim>\<open>float(temp_value)\<close> against ValueError and TypeError
  only. For the payload whose temperature is the integer \<open>10^400\<close> (a JSON integer
  literal, which \<^verbatim>\<open>json.loads\<close> reads as an \<^verbatim>\<open>int\<close>), \<^verbatim>\<open>float\<close> raises OverflowError:
  the mapper is left by the exception and sets no temperature field.
\<close>

theorem hvac_temperature_overflow:
  "map_telemetry_data L
     [(''system'', JStr ''HVAC_System''), (''temperature'', JInt (10 ^ 400))]
     (JStr ''HVAC_System'') = Inl OverflowError"
  by (simp add: map_telemetry_data_def dict_get_def float_of_int_overflow_examples
      del: power_numeral)

text \<open>
  C9. The mapper does raise on a raw field bag: for the HVAC payload whose temperature
  is the integer \<open>-(2^1024)\<close> it is left by OverflowError, and the request is answered
  with the error acknowledgment 500, nothing being stored.
\<close>

theorem mapper_raises_on_integer_overflow:
  "map_telemetry_data L
     [(''system'', JStr ''HVAC_System''), (''temperature'', JInt (- (2 ^ 1024)))]
     (JStr ''HVAC_System'') = Inl OverflowError \<and>
   do_POST L
     (Parsed (JObj [(''system'', JStr ''HVAC_System''), (''temperature'', JInt (- (2 ^ 1024)))]))
     w = (send_error_response 500 ''Internal Server Error'', py_print (CriticalError OverflowError) w)"
proof -
  have m: "map_telemetry_data L
     [(''system'', JStr ''HVAC_System''), (''temperature'', JInt (- (2 ^ 1024)))]
     (JStr ''HVAC_System'') = Inl OverflowError"
    by (simp add: map_telemetry_data_def dict_get_def float_of_int_overflow_examples
        del: power_numeral)
  have s: "dict_get_or [(''system'', JStr ''HVAC_System''), (''temperature'', JInt (- (2 ^ 1024)))]
             ''system'' (JStr ''Unknown'') = JStr ''HVAC_System''"
    by (simp add: dict_get_or_def)
  have f: "factory_mapping_get
     (dict_get_or [(''system'', JStr ''HVAC_System''), (''temperature'', JInt (- (2 ^ 1024)))]
             ''factory'' (JStr DEFAULT_FACTORY)) = Inr ''factory_1_data''"
    by (simp add: dict_get_or_def factory_mapping_get_def str_key_get_def FACTORY_MAPPING_def
        DEFAULT_FACTORY_def)
  show ?thesis
    by (simp only: m s f do_POST_def Let_def internal_error_def request.case json.case
        sum.case simp_thms)
qed

section \<open>The coordinator\<close>

lemma db_call_frame: "db_call w = (failed, w1) \<Longrightarrow> w1 = w\<lparr>faults := tl (faults w)\<rparr>"
  by (cases "faults w") (auto simp: db_call_def)

lemma insert_to_supabase_alerts:
  "insert_to_supabase table_name stamped factory w = (success, w1) \<Longrightarrow> alerts w1 = alerts w"
  by (auto simp: insert_to_supabase_def Let_def py_print_def
      split: sum.splits option.splits if_splits prod.splits dest!: db_call_frame)

lemma insert_to_supabase_failure_logged:
  "insert_to_supabase table_name stamped factory w = (False, w1) \<Longrightarrow>
   \<exists>e. console w1 = console w @ [DatabaseError e]"
  by (auto simp: insert_to_supabase_def Let_def py_print_def
      split: sum.splits option.splits if_splits prod.splits dest!: db_call_frame)

lemma insert_to_supabase_unknown_factory:
  assumes "factory_lookup factory = Inr None"
  shows "insert_to_supabase table_name stamped factory w =
     (if fst (db_call w)
      then (False, py_print (DatabaseError StorageError) (snd (db_call w)))
      else (True, (snd (db_call w))\<lparr>telemetry_rows := telemetry_rows w @ [(table_name, stamped)]\<rparr>))"
  using assms
  by (cases "db_call w") (auto simp: insert_to_supabase_def Let_def dest!: db_call_frame)

lemma factory_lookup_unknown:
  "hashable factory \<Longrightarrow> factory \<noteq> JStr ''factory_1'' \<Longrightarrow> factory \<noteq> JStr ''factory_2'' \<Longrightarrow>
   factory_lookup factory = Inr None \<and> factory_mapping_get factory = Inr ''factory_1_data''"
  by (cases factory)
     (auto simp: factory_lookup_def factory_mapping_get_def str_key_get_def FACTORY_MAPPING_def
        DEFAULT_FACTORY_def)

lemma do_POST_mapped:
  assumes "map_telemetry_data L pt_data sysname = Inr telemetry" and "telemetry \<noteq> []"
    and "sysname = dict_get_or pt_data ''system'' (JStr ''Unknown'')"
    and "factory = dict_get_or pt_data ''factory'' (JStr DEFAULT_FACTORY)"
    and "factory_mapping_get factory = Inr table_name"
    and "stamped = AList.update ''timestamp'' (JStr (isoformat (clock w)))
                    (AList.update ''system_name'' sysname telemetry)"
    and "insert_to_supabase table_name stamped factory w = (success, w1)"
  shows "do_POST L (Parsed (JObj pt_data)) w =
     (success_response,
      if success
      then check_and_create_alerts L stamped factory sysname
             (py_print (DataSaved sysname table_name) w1)
      else py_print (SaveFailed sysname table_name) w1)"
proof -
  from map_telemetry_data_nonempty [OF assms(1,2)] have "formattable sysname" by auto
  with assms show ?thesis
    by (simp add: do_POST_def Let_def)
qed

text \<open>
  C1, as the code has it. For every parsed payload with a hashable factory key and a
  non-empty mapping the sender receives the success acknowledgment, whether or not
  persisting the record succeeded. When it failed, the failure is printed, the request
  ends with the line ``Save Failed'' and the alerts are those it started with: the
  record is not evaluated. Only when it succeeded is \<^verbatim>\<open>_check_and_create_alerts\<close> run on
  the record.
\<close>

theorem alerts_only_after_persistence:
  assumes "map_telemetry_data L pt_data sysname = Inr telemetry" and "telemetry \<noteq> []"
    and "sysname = dict_get_or pt_data ''system'' (JStr ''Unknown'')"
    and "factory = dict_get_or pt_data ''factory'' (JStr DEFAULT_FACTORY)"
    and "factory_mapping_get factory = Inr table_name"
    and "stamped = AList.update ''timestamp'' (JStr (isoformat (clock w)))
                    (AList.update ''system_name'' sysname telemetry)"
    and "insert_to_supabase table_name stamped factory w = (success, w1)"
  shows
    "fst (do_POST L (Parsed (JObj pt_data)) w) = success_response \<and>
     (\<not> success \<longrightarrow>
        snd (do_POST L (Parsed (JObj pt_data)) w) = py_print (SaveFailed sysname table_name) w1 \<and>
        (\<exists>e. console w1 = console w @ [DatabaseError e]) \<and>
        alerts (snd (do_POST L (Parsed (JObj pt_data)) w)) = alerts w) \<and>
     (success \<longrightarrow>
        snd (do_POST L (Parsed (JObj pt_data)) w) =
          check_and_create_alerts L stamped factory sysname
            (py_print (DataSaved sysname table_name) w1))"
proof -
  note post = do_POST_mapped [OF assms]
  have "\<not> success \<longrightarrow> (\<exists>e. console w1 = console w @ [DatabaseError e])"
    using insert_to_supabase_failure_logged [of table_name stamped factory w w1] assms(7)
    by auto
  moreover have "alerts w1 = alerts w"
    using assms(7) by (rule insert_to_supabase_alerts)
  ultimately show ?thesis by (simp add: post)
qed

theorem alerts_only_after_persistence_witness:
  "fst (do_POST demo_lib
          (Parsed (JObj [(''system'', JStr ''Fire_Control''), (''status'', JStr ''FIRE_1'')]))
          (initial_world\<lparr>faults := [False, True]\<rparr>)) = success_response \<and>
   alerts (snd (do_POST demo_lib
          (Parsed (JObj [(''system'', JStr ''Fire_Control''), (''status'', JStr ''FIRE_1'')]))
          (initial_world\<lparr>faults := [False, True]\<rparr>))) = alerts initial_world"
proof -
  let ?pt = "[(''system'', JStr ''Fire_Control''), (''status'', JStr ''FIRE_1'')]"
  let ?w = "initial_world\<lparr>faults := [False, True]\<rparr>"
  let ?tel = "[(''fire_sensor_val'', JNull), (''fire_status'', JStr ''FIRE_1''),
               (''siren_state'', JStr ''OFF''), (''sprinkler_state'', JStr ''OFF'')]"
  let ?stamped = "AList.update ''timestamp'' (JStr (isoformat (clock ?w)))
                    (AList.update ''system_name'' (JStr ''Fire_Control'') ?tel)"
  let ?w1 = "py_print (DatabaseError StorageError)
               (initial_world\<lparr>telemetry_rows := [(''factory_1_data'', ?stamped)]\<rparr>)"
  have s: "JStr ''Fire_Control'' = dict_get_or ?pt ''system'' (JStr ''Unknown'')"
    by (simp add: dict_get_or_def)
  have f: "JStr ''factory_1'' = dict_get_or ?pt ''factory'' (JStr DEFAULT_FACTORY)"
    by (simp add: dict_get_or_def DEFAULT_FACTORY_def)
  have m: "map_telemetry_data demo_lib ?pt (JStr ''Fire_Control'') = Inr ?tel"
    by (simp add: map_telemetry_data_def dict_get_def)
  have ne: "?tel \<noteq> []" by simp
  have fm: "factory_mapping_get (JStr ''factory_1'') = Inr ''factory_1_data''"
    by (simp add: factory_mapping_get_def str_key_get_def FACTORY_MAPPING_def)
  have ins: "insert_to_supabase ''factory_1_data'' ?stamped (JStr ''factory_1'') ?w = (False, ?w1)"
    by (simp add: insert_to_supabase_def db_call_def initial_world_def factory_lookup_def
        str_key_get_def py_print_def)
  from alerts_only_after_persistence [OF m ne s f fm refl ins]
  have "fst (do_POST demo_lib (Parsed (JObj ?pt)) ?w) = success_response \<and>
        alerts (snd (do_POST demo_lib (Parsed (JObj ?pt)) ?w)) = alerts ?w"
    by simp
  then show ?thesis by simp
qed

text \<open>
  C1 as stated fails. A fire reading arrives while the insert of the record raises: the
  sender is answered with success and the failure is printed, but the alerts table stays
  empty and no alert line is printed, although evaluating the same record on the same
  (now healthy) store asserts FIRE_DETECTED.
\<close>

theorem persistence_failure_skips_alert_evaluation:
  "fst (do_POST demo_lib
          (Parsed (JObj [(''system'', JStr ''Fire_Control''), (''status'', JStr ''FIRE_1'')]))
          (initial_world\<lparr>faults := [True]\<rparr>)) = success_response \<and>
   alerts (snd (do_POST demo_lib
          (Parsed (JObj [(''system'', JStr ''Fire_Control''), (''status'', JStr ''FIRE_1'')]))
          (initial_world\<lparr>faults := [True]\<rparr>))) = [] \<and>
   console (snd (do_POST demo_lib
          (Parsed (JObj [(''system'', JStr ''Fire_Control''), (''status'', JStr ''FIRE_1'')]))
          (initial_world\<lparr>faults := [True]\<rparr>))) =
     [DatabaseError StorageError, SaveFailed (JStr ''Fire_Control'') ''factory_1_data''] \<and>
   faults (snd (do_POST demo_lib
          (Parsed (JObj [(''system'', JStr ''Fire_Control''), (''status'', JStr ''FIRE_1'')]))
          (initial_world\<lparr>faults := [True]\<rparr>))) = [] \<and>
   alerts (check_and_create_alerts demo_lib
          [(''fire_sensor_val'', JNull), (''fire_status'', JStr ''FIRE_1''),
           (''siren_state'', JStr ''OFF''), (''sprinkler_state'', JStr ''OFF''),
           (''system_name'', JStr ''Fire_Control''), (''timestamp'', JStr ''0'')]
          (JStr ''factory_1'') (JStr ''Fire_Control'') initial_world) =
     [new_alert 1 ''FIRE_DETECTED'' ''CRITICAL''
        ''FIRE DETECTED! Sensor: None | Sprinklers & Siren ACTIVATED'' (JStr ''Fire_Control'') 0]"
  by code_simp

text \<open>
  An unknown factory key that can be hashed. For every parsed payload with a non-empty
  mapping whose factory key is hashable (a string, a number, a boolean or null)
  and is neither \<open>factory_1\<close> nor \<open>factory_2\<close>: the sender receives the success
  acknowledgment; the record is inserted into \<open>factory_1_data\<close>, the table of the default
  factory, unless the insert itself raises; the alerts table and the table of factories
  (so every \<^verbatim>\<open>last_data_received\<close>) are unchanged, and the console shows the outcome of
  the insert only.
\<close>

theorem unknown_factory_no_alerts:
  assumes "map_telemetry_data L pt_data sysname = Inr telemetry" and "telemetry \<noteq> []"
    and "sysname = dict_get_or pt_data ''system'' (JStr ''Unknown'')"
    and "factory = dict_get_or pt_data ''factory'' (JStr DEFAULT_FACTORY)"
    and "hashable factory" and "factory \<noteq> JStr ''factory_1''" and "factory \<noteq> JStr ''factory_2''"
    and "stamped = AList.update ''timestamp'' (JStr (isoformat (clock w)))
                    (AList.update ''system_name'' sysname telemetry)"
    and "w' = snd (do_POST L (Parsed (JObj pt_data)) w)"
  shows
    "fst (do_POST L (Parsed (JObj pt_data)) w) = success_response \<and>
     alerts w' = alerts w \<and> factories w' = factories w \<and>
     telemetry_rows w' =
       (if fst (db_call w) then telemetry_rows w
        else telemetry_rows w @ [(''factory_1_data'', stamped)]) \<and>
     console w' = console w @
       (if fst (db_call w)
        then [DatabaseError StorageError, SaveFailed sysname ''factory_1_data'']
        else [DataSaved sysname ''factory_1_data'']) \<and>
     (faults w = [] \<longrightarrow>
        telemetry_rows w' = telemetry_rows w @ [(''factory_1_data'', stamped)])"
proof -
  from factory_lookup_unknown [OF assms(5,6,7)]
  have lk: "factory_lookup factory = Inr None"
    and fm: "factory_mapping_get factory = Inr ''factory_1_data''"
    by simp_all
  obtain failed w0 where db: "db_call w = (failed, w0)" by (cases "db_call w")
  from db_call_frame [OF db] have w0: "w0 = w\<lparr>faults := tl (faults w)\<rparr>" .
  let ?res = "insert_to_supabase ''factory_1_data'' stamped factory w"
  have ins: "?res = (fst ?res, snd ?res)" by simp
  note post = do_POST_mapped [OF assms(1,2,3,4) fm assms(8) ins]
  have res: "?res =
     (if failed then (False, py_print (DatabaseError StorageError) w0)
      else (True, w0\<lparr>telemetry_rows := telemetry_rows w @ [(''factory_1_data'', stamped)]\<rparr>))"
    using insert_to_supabase_unknown_factory [OF lk, of "''factory_1_data''" stamped w] db
    by simp
  have skip: "\<And>v. check_and_create_alerts L stamped factory sysname v = v"
    using lk by (simp add: check_and_create_alerts_def)
  have "faults w = [] \<longrightarrow> \<not> failed" using db by (auto simp: db_call_def)
  then show ?thesis
    unfolding assms(9) post res skip using db w0 by (auto simp: py_print_def)
qed

theorem unknown_factory_no_alerts_witness:
  "hashable (JStr ''factory_9'') \<and>
   fst (do_POST demo_lib
          (Parsed (JObj [(''system'', JStr ''Fire_Control''), (''status'', JStr ''FIRE_1''),
                         (''factory'', JStr ''factory_9'')]))
          initial_world) = success_response \<and>
   alerts (snd (do_POST demo_lib
          (Parsed (JObj [(''system'', JStr ''Fire_Control''), (''status'', JStr ''FIRE_1''),
                         (''factory'', JStr ''factory_9'')]))
          initial_world)) = [] \<and>
   factories (snd (do_POST demo_lib
          (Parsed (JObj [(''system'', JStr ''Fire_Control''), (''status'', JStr ''FIRE_1''),
                         (''factory'', JStr ''factory_9'')]))
          initial_world)) = [(1, None), (2, None)]"
proof -
  let ?pt = "[(''system'', JStr ''Fire_Control''), (''status'', JStr ''FIRE_1''),
              (''factory'', JStr ''factory_9'')]"
  let ?tel = "[(''fire_sensor_val'', JNull), (''fire_status'', JStr ''FIRE_1''),
               (''siren_state'', JStr ''OFF''), (''sprinkler_state'', JStr ''OFF'')]"
  have s: "JStr ''Fire_Control'' = dict_get_or ?pt ''system'' (JStr ''Unknown'')"
    by (simp add: dict_get_or_def)
  have f: "JStr ''factory_9'' = dict_get_or ?pt ''factory'' (JStr DEFAULT_FACTORY)"
    by (simp add: dict_get_or_def)
  have m: "map_telemetry_data demo_lib ?pt (JStr ''Fire_Control'') = Inr ?tel"
    by (simp add: map_telemetry_data_def dict_get_def)
  have ne: "?tel \<noteq> []" by simp
  have hk: "hashable (JStr ''factory_9'')" "JStr ''factory_9'' \<noteq> JStr ''factory_1''"
    "JStr ''factory_9'' \<noteq> JStr ''factory_2''"
    by simp_all
  from unknown_factory_no_alerts [OF m ne s f hk refl refl]
  have "fst (do_POST demo_lib (Parsed (JObj ?pt)) initial_world) = success_response \<and>
        alerts (snd (do_POST demo_lib (Parsed (JObj ?pt)) initial_world)) = alerts initial_world \<and>
        factories (snd (do_POST demo_lib (Parsed (JObj ?pt)) initial_world)) =
          factories initial_world"
    by simp
  then show ?thesis by (simp add: initial_world_def)
qed

section \<open>A battery level beyond the doubles\<close>

lemma float_of_int_negative_overflow: "float_of_int (- (10 ^ 400)) = Inl OverflowError"
  by (rule float_of_int_overflow) simp

lemma auto_acknowledge_alert_frame:
  "atype' \<noteq> atype \<Longrightarrow>
   alerts_of_type atype' (alerts (auto_acknowledge_alert pk sysname atype w)) =
     alerts_of_type atype' (alerts w)"
  using auto_acknowledge_alert_alerts [of pk sysname atype w]
  by (auto simp: alerts_of_type_clear_rows_other)

lemma huge_negative_level_below_threshold:
  "truthy (JInt (- (10 ^ 400)))"
  "less_float (JInt (- (10 ^ 400))) battery_low = Inr True"
  by (simp_all add: battery_low_def)

lemma battery_overflow_run:
  assumes "n \<noteq> 0" and "less_float (JInt n) battery_low = Inr True"
    and "float_of_int n = Inl OverflowError"
  shows "map_telemetry_data L
           [(''system'', JStr ''Battery_System''), (''battery_level'', JInt n)]
           (JStr ''Battery_System'') =
           Inr [(''battery_level'', JInt n), (''led_brightness'', JNull)]"
    and "check_and_create_alerts L [(''battery_level'', JInt n), (''led_brightness'', JNull)]
           (JStr ''factory_1'') (JStr ''Battery_System'') w =
         py_print (AlertError OverflowError)
           (auto_acknowledge_alert 1 (JStr ''Battery_System'') ''FIRE_DETECTED'' w)"
proof -
  let ?tel = "[(''battery_level'', JInt n), (''led_brightness'', JNull)]"
  let ?sys = "JStr ''Battery_System''"
  show "map_telemetry_data L [(''system'', ?sys), (''battery_level'', JInt n)] ?sys = Inr ?tel"
    by (simp add: map_telemetry_data_def dict_get_def)
  have k: "factory_lookup (JStr ''factory_1'') = Inr (Some 1)"
    by (simp add: factory_lookup_def str_key_get_def)
  have fire: "\<And>v. fire_rule L 1 ?tel ?sys v =
      auto_acknowledge_alert 1 ?sys ''FIRE_DETECTED'' v"
    by (simp add: fire_rule_def dict_get_or_def py_str_def upper_def)
  have temp: "\<And>v. temperature_rule L 1 ?tel ?sys v = (None, v)"
    by (simp add: temperature_rule_def read_temperature_def dict_get_def)
  have batt: "\<And>v. battery_rule L 1 ?tel ?sys v = (Some OverflowError, v)"
    using assms by (simp add: battery_rule_def dict_get_def)
  show "check_and_create_alerts L ?tel (JStr ''factory_1'') ?sys w =
     py_print (AlertError OverflowError) (auto_acknowledge_alert 1 ?sys ''FIRE_DETECTED'' w)"
    using fire temp batt by (simp add: check_and_create_alerts_def k)
qed

text \<open>
  C6. The rule does not assert for every level that is present, truthy and below the
  threshold. A Battery_System payload with the integer level \<open>-(10^400)\<close> is mapped to a
  record with that level; the level is truthy and below \<open>battery_low\<close>, but the format
  \<^verbatim>\<open>{battery:.1f}\<close> of the alert message raises OverflowError before
  \<^verbatim>\<open>_create_unique_alert\<close> is called. The exception is caught by the handler of
  \<^verbatim>\<open>_check_and_create_alerts\<close>, which prints it: the LOW_BATTERY rows are untouched, on
  every store, and the request is answered with success.
\<close>

theorem low_battery_format_overflow:
  "map_telemetry_data L
     [(''system'', JStr ''Battery_System''), (''battery_level'', JInt (- (10 ^ 400)))]
     (JStr ''Battery_System'') =
     Inr [(''battery_level'', JInt (- (10 ^ 400))), (''led_brightness'', JNull)] \<and>
   truthy (JInt (- (10 ^ 400))) \<and>
   less_float (JInt (- (10 ^ 400))) battery_low = Inr True \<and>
   format_number L (JInt (- (10 ^ 400))) = Inl OverflowError \<and>
   check_and_create_alerts L
     [(''battery_level'', JInt (- (10 ^ 400))), (''led_brightness'', JNull)]
     (JStr ''factory_1'') (JStr ''Battery_System'') w =
     py_print (AlertError OverflowError)
       (auto_acknowledge_alert 1 (JStr ''Battery_System'') ''FIRE_DETECTED'' w) \<and>
   alerts_of_type ''LOW_BATTERY'' (alerts (check_and_create_alerts L
     [(''battery_level'', JInt (- (10 ^ 400))), (''led_brightness'', JNull)]
     (JStr ''factory_1'') (JStr ''Battery_System'') w)) =
     alerts_of_type ''LOW_BATTERY'' (alerts w) \<and>
   open_alerts 1 (JStr ''Battery_System'') ''LOW_BATTERY'' (check_and_create_alerts L
     [(''battery_level'', JInt (- (10 ^ 400))), (''led_brightness'', JNull)]
     (JStr ''factory_1'') (JStr ''Battery_System'') initial_world) = []"
proof -
  let ?b = "JInt (- (10 ^ 400))"
  let ?tel = "[(''battery_level'', ?b), (''led_brightness'', JNull)]"
  let ?sys = "JStr ''Battery_System''"
  note tb = huge_negative_level_below_threshold
  have nz: "- (10 ^ 400) \<noteq> (0::int)" by simp
  note ov = float_of_int_negative_overflow
  note run = battery_overflow_run [OF nz tb(2) ov]
  have fmt: "format_number L ?b = Inl OverflowError"
    by (simp only: format_number.simps ov sum.case)
  have rows: "alerts_of_type ''LOW_BATTERY''
       (alerts (check_and_create_alerts L ?tel (JStr ''factory_1'') ?sys w)) =
     alerts_of_type ''LOW_BATTERY'' (alerts w)"
    by (simp only: run(2) py_print_alerts) (rule auto_acknowledge_alert_frame, simp)
  have "alerts (auto_acknowledge_alert 1 ?sys ''FIRE_DETECTED'' initial_world) = []"
    using auto_acknowledge_alert_alerts [of 1 ?sys "''FIRE_DETECTED''" initial_world]
    by (auto simp: initial_world_def clear_rows_def simp del: power_numeral)
  then have none: "open_alerts 1 ?sys ''LOW_BATTERY''
       (check_and_create_alerts L ?tel (JStr ''factory_1'') ?sys initial_world) = []"
    by (simp only: run(2) py_print_alerts open_alerts_def filter.simps)
  from run(1) [of L] run(2) [of L w] tb fmt rows none show ?thesis by blast
qed

section \<open>A factory key that cannot be hashed\<close>

text \<open>
  C10. The fallback to the default factory's table does not reach every unknown factory
  key. For a payload of a recognized subsystem whose factory key is a list (so not one
  of the known keys), \<^verbatim>\<open>FACTORY_MAPPING.get\<close> raises TypeError, the key being unhashable,
  before the mapper is called: the request is answered with the error 500 and no
  telemetry record is persisted, on every store.
\<close>

theorem unhashable_factory_not_persisted:
  "dict_get_or [(''system'', JStr ''Fire_Control''), (''status'', JStr ''FIRE_1''),
                (''factory'', JArr [])] ''factory'' (JStr DEFAULT_FACTORY) = JArr [] \<and>
   JArr [] \<noteq> JStr ''factory_1'' \<and> JArr [] \<noteq> JStr ''factory_2'' \<and>
   map_telemetry_data L
     [(''system'', JStr ''Fire_Control''), (''status'', JStr ''FIRE_1''), (''factory'', JArr [])]
     (JStr ''Fire_Control'') =
     Inr [(''fire_sensor_val'', JNull), (''fire_status'', JStr ''FIRE_1''),
          (''siren_state'', JStr ''OFF''), (''sprinkler_state'', JStr ''OFF'')] \<and>
   factory_mapping_get (JArr []) = Inl TypeError \<and>
   do_POST L
     (Parsed (JObj [(''system'', JStr ''Fire_Control''), (''status'', JStr ''FIRE_1''),
                    (''factory'', JArr [])])) w =
     (send_error_response 500 ''Internal Server Error'', py_print (CriticalError TypeError) w) \<and>
   telemetry_rows (snd (do_POST L
     (Parsed (JObj [(''system'', JStr ''Fire_Control''), (''status'', JStr ''FIRE_1''),
                    (''factory'', JArr [])])) w)) = telemetry_rows w"
proof -
  let ?pt = "[(''system'', JStr ''Fire_Control''), (''status'', JStr ''FIRE_1''),
              (''factory'', JArr [])]"
  have f: "dict_get_or ?pt ''factory'' (JStr DEFAULT_FACTORY) = JArr []"
    by (simp add: dict_get_or_def)
  have m: "map_telemetry_data L ?pt (JStr ''Fire_Control'') =
     Inr [(''fire_sensor_val'', JNull), (''fire_status'', JStr ''FIRE_1''),
          (''siren_state'', JStr ''OFF''), (''sprinkler_state'', JStr ''OFF'')]"
    by (simp add: map_telemetry_data_def dict_get_def)
  have g: "factory_mapping_get (JArr []) = Inl TypeError"
    by (simp add: factory_mapping_get_def str_key_get_def)
  have post: "do_POST L (Parsed (JObj ?pt)) w =
     (send_error_response 500 ''Internal Server Error'', py_print (CriticalError TypeError) w)"
    by (simp add: do_POST_def Let_def f g internal_error_def)
  from f m g post show ?thesis by simp
qed

end
